theory Spec2Isabelle
  imports Main "HOL-Library.Monad_Syntax"
begin

section \<open>The OpenCL backend of ppcg (opencl.c)\<close>

text \<open>
  The backend prints host and kernel code through isl printers.  A printer is
  modelled by the sequence of print operations performed on it, in order.  The
  operations of isl and of the other ppcg files (gpu_print.c, print.c, gpu.c)
  that opencl.c only calls are kept as single operations carrying their
  arguments; what opencl.c itself prints is kept string by string.
\<close>

subsection \<open>isl objects, as far as the backend observes them\<close>

text \<open>
  An isl set is either recognisably empty, recognisably the universe, or a set
  with constraints of which neither is obvious.  Only the two plain tests are
  ever run on a set by opencl.c.
\<close>

datatype isl_set = Plain_empty | Plain_universe | Constrained string

definition isl_set_plain_is_empty :: "isl_set \<Rightarrow> bool" where
  "isl_set_plain_is_empty s = (s = Plain_empty)"

definition isl_set_plain_is_universe :: "isl_set \<Rightarrow> bool" where
  "isl_set_plain_is_universe s = (s = Plain_universe)"

text \<open>
  A space: its parameters, the name of its tuple and its set dimensions.  The
  name of a dimension is asked for positions below \<open>isl_space_dim\<close> only.
\<close>

record isl_space =
  space_params :: "string list"
  space_tuple :: string
  space_dims :: "string list"

datatype isl_dim_type = isl_dim_param | isl_dim_set

definition isl_space_dim :: "isl_space \<Rightarrow> isl_dim_type \<Rightarrow> int" where
  "isl_space_dim sp t =
     (case t of isl_dim_param \<Rightarrow> int (length (space_params sp))
              | isl_dim_set \<Rightarrow> int (length (space_dims sp)))"

definition isl_space_get_dim_name :: "isl_space \<Rightarrow> isl_dim_type \<Rightarrow> int \<Rightarrow> string" where
  "isl_space_get_dim_name sp t i =
     (case t of isl_dim_param \<Rightarrow> space_params sp ! nat i
              | isl_dim_set \<Rightarrow> space_dims sp ! nat i)"

text \<open>
  A union set: its parameters and one set per tuple name.  Extracting the set
  of a space that has no entry gives the empty set.
\<close>

record isl_union_set =
  uset_params :: "string list"
  uset_sets :: "(string \<times> isl_set) list"

definition isl_union_set_extract_set :: "isl_union_set \<Rightarrow> isl_space \<Rightarrow> isl_set" where
  "isl_union_set_extract_set us sp =
     (case map_of (uset_sets us) (space_tuple sp) of
        None \<Rightarrow> Plain_empty
      | Some s \<Rightarrow> s)"

definition isl_union_set_get_space :: "isl_union_set \<Rightarrow> isl_space" where
  "isl_union_set_get_space us =
     \<lparr>space_params = uset_params us, space_tuple = [], space_dims = []\<rparr>"

text \<open>Piecewise affine expressions and AST nodes are printed, never inspected.\<close>

datatype isl_pw_aff = Pw_aff string

record isl_ctx =
  ast_iterator_type :: string

record isl_ast_node =
  node_ctx :: isl_ctx
  node_text :: string

definition isl_options_get_ast_iterator_type :: "isl_ctx \<Rightarrow> string" where
  "isl_options_get_ast_iterator_type c = ast_iterator_type c"

definition isl_ast_node_get_ctx :: "isl_ast_node \<Rightarrow> isl_ctx" where
  "isl_ast_node_get_ctx n = node_ctx n"

subsection \<open>The program model of the scheduler\<close>

text \<open>
  struct gpu_array_info.  The fields \<open>space\<close>, \<open>type\<close>, \<open>name\<close> and
  \<open>n_index\<close> are the ones opencl.c reads.  The two flags and the guard stand
  for what gpu.c computes from the array (see below).
\<close>

record gpu_array_info =
  space :: isl_space
  type :: string
  name :: string
  n_index :: nat
  scalar :: bool
  read_only_scalar :: bool
  positive_size_guard :: isl_set

text \<open>
  Modelled from the spec: \<open>gpu_array_is_scalar\<close>, \<open>gpu_array_is_read_only_scalar\<close>
  and \<open>gpu_array_positive_size_guard\<close> are defined in gpu.c, which is not among
  the sources.  The spec gives an array the flags is-scalar and
  is-read-only-scalar, and a positive-size guard that is a symbolic predicate
  over the parameters; the array carries the three results.
\<close>

definition gpu_array_is_scalar :: "gpu_array_info \<Rightarrow> bool" where
  "gpu_array_is_scalar a = scalar a"

definition gpu_array_is_read_only_scalar :: "gpu_array_info \<Rightarrow> bool" where
  "gpu_array_is_read_only_scalar a = read_only_scalar a"

definition gpu_array_positive_size_guard :: "gpu_array_info \<Rightarrow> isl_set" where
  "gpu_array_positive_size_guard a = positive_size_guard a"

text \<open>struct ppcg_kernel_var and struct ppcg_kernel, as far as opencl.c reads them.\<close>

datatype ppcg_access_type = ppcg_access_global | ppcg_access_shared | ppcg_access_private

record ppcg_kernel_var =
  var_array :: gpu_array_info
  var_name :: string
  var_type :: ppcg_access_type
  var_size :: "int list"

record ppcg_kernel =
  kernel_id :: int
  block_dim :: "int list"
  grid_size :: "isl_pw_aff list"
  arrays :: isl_union_set
  kernel_space :: isl_space
  var :: "ppcg_kernel_var list"
  tree :: isl_ast_node

text \<open>
  \<open>kernel->n_block\<close> is the number of valid entries of \<open>kernel->block_dim\<close>,
  \<open>kernel->n_var\<close> that of \<open>kernel->var\<close>; the dimension of the grid is the
  number of components of \<open>kernel->grid_size\<close>.
\<close>

definition n_block :: "ppcg_kernel \<Rightarrow> int" where
  "n_block kern = int (length (block_dim kern))"

definition n_var :: "ppcg_kernel \<Rightarrow> int" where
  "n_var kern = int (length (var kern))"

definition isl_multi_pw_aff_dim :: "isl_pw_aff list \<Rightarrow> isl_dim_type \<Rightarrow> int" where
  "isl_multi_pw_aff_dim mpa t = int (length mpa)"

definition isl_multi_pw_aff_get_pw_aff :: "isl_pw_aff list \<Rightarrow> int \<Rightarrow> isl_pw_aff" where
  "isl_multi_pw_aff_get_pw_aff mpa i = mpa ! nat i"

text \<open>struct gpu_prog; \<open>prog->n_array\<close> is the length of \<open>prog->array\<close>.\<close>

record gpu_prog =
  ctx :: isl_ctx
  array :: "gpu_array_info list"
  copy_in :: isl_union_set
  copy_out :: isl_union_set
  prog_context :: isl_set

definition n_array :: "gpu_prog \<Rightarrow> int" where
  "n_array prog = int (length (array prog))"

subsection \<open>Printers\<close>

datatype out =
    Start_line
  | End_line
  | Indent int
  | Print_str string
  | Print_int int
  | Print_val int
  | Print_pw_aff isl_pw_aff
  | Start_block
  | End_block
  | Print_size gpu_array_info
  | Print_declaration_argument gpu_array_info string
  | Print_call_argument gpu_array_info
  | Print_macros isl_ast_node
  | Print_ast_node isl_ast_node
  | Guarded isl_set isl_set "out list"

type_synonym isl_printer = "out list"

definition isl_printer_start_line :: "isl_printer \<Rightarrow> isl_printer" where
  "isl_printer_start_line p = p @ [Start_line]"

definition isl_printer_end_line :: "isl_printer \<Rightarrow> isl_printer" where
  "isl_printer_end_line p = p @ [End_line]"

definition isl_printer_indent :: "isl_printer \<Rightarrow> int \<Rightarrow> isl_printer" where
  "isl_printer_indent p n = p @ [Indent n]"

definition isl_printer_print_str :: "isl_printer \<Rightarrow> string \<Rightarrow> isl_printer" where
  "isl_printer_print_str p s = p @ [Print_str s]"

definition isl_printer_print_int :: "isl_printer \<Rightarrow> int \<Rightarrow> isl_printer" where
  "isl_printer_print_int p i = p @ [Print_int i]"

definition isl_printer_print_val :: "isl_printer \<Rightarrow> int \<Rightarrow> isl_printer" where
  "isl_printer_print_val p v = p @ [Print_val v]"

definition isl_printer_print_pw_aff :: "isl_printer \<Rightarrow> isl_pw_aff \<Rightarrow> isl_printer" where
  "isl_printer_print_pw_aff p a = p @ [Print_pw_aff a]"

definition isl_ast_node_print :: "isl_ast_node \<Rightarrow> isl_printer \<Rightarrow> isl_printer" where
  "isl_ast_node_print node p = p @ [Print_ast_node node]"

text \<open>The printing services of print.c and gpu_print.c.\<close>

definition ppcg_start_block :: "isl_printer \<Rightarrow> isl_printer" where
  "ppcg_start_block p = p @ [Start_block]"

definition ppcg_end_block :: "isl_printer \<Rightarrow> isl_printer" where
  "ppcg_end_block p = p @ [End_block]"

definition gpu_array_info_print_size :: "isl_printer \<Rightarrow> gpu_array_info \<Rightarrow> isl_printer" where
  "gpu_array_info_print_size p a = p @ [Print_size a]"

definition gpu_array_info_print_declaration_argument ::
  "isl_printer \<Rightarrow> gpu_array_info \<Rightarrow> string \<Rightarrow> isl_printer" where
  "gpu_array_info_print_declaration_argument p a memory_space =
     p @ [Print_declaration_argument a memory_space]"

definition gpu_array_info_print_call_argument ::
  "isl_printer \<Rightarrow> gpu_array_info \<Rightarrow> isl_printer" where
  "gpu_array_info_print_call_argument p a = p @ [Print_call_argument a]"

definition gpu_print_macros :: "isl_printer \<Rightarrow> isl_ast_node \<Rightarrow> isl_printer" where
  "gpu_print_macros p node = p @ [Print_macros node]"

text \<open>
  Modelled from the spec: what \<open>gpu_array_info_print_declaration_argument\<close>
  prints is defined in gpu_print.c, which is not among the sources.  By the
  spec, in a declaration each array argument is annotated with the
  address-space qualifier and with its element type.  The annotation of an
  operation of a printer is the qualifier and the element type printed with
  the argument; only the declaration of an array argument has one.
\<close>

fun annotation :: "out \<Rightarrow> (string \<times> string) option" where
  "annotation (Print_declaration_argument a memory_space) = Some (memory_space, type a)"
| "annotation _ = None"

text \<open>
  Modelled from the spec: \<open>ppcg_print_guarded\<close> is defined in print.c, which is
  not among the sources.  By the spec a statement is wrapped inside the guard,
  under the parameter-constraint context of the program, and a statement whose
  guard is trivial is emitted unguarded.
\<close>

definition ppcg_print_guarded ::
  "isl_printer \<Rightarrow> isl_set \<Rightarrow> isl_set \<Rightarrow> (isl_printer \<Rightarrow> 'u \<Rightarrow> isl_printer) \<Rightarrow> 'u \<Rightarrow> isl_printer" where
  "ppcg_print_guarded p guard context_set fn user =
     (if isl_set_plain_is_universe guard then fn p user
      else p @ [Guarded guard context_set (fn [] user)])"

subsection \<open>Work sizes\<close>

text \<open>Print the block sizes as a list of the sizes in each dimension.\<close>

definition opencl_print_block_sizes :: "isl_printer \<Rightarrow> ppcg_kernel \<Rightarrow> isl_printer" where
  "opencl_print_block_sizes p kern =
     (if n_block kern > 0 then
        fold (\<lambda>i p.
                let p = (if i \<noteq> 0 then isl_printer_print_str p '', '' else p)
                in isl_printer_print_int p (block_dim kern ! nat i))
             [0..n_block kern - 1] p
      else isl_printer_print_str p ''1'')"

text \<open>
  The i'th block size multiplied by the i'th grid size, or the one of the two
  that exists in dimension i.  The function checks no bound: it is called for
  the dimensions 0 .. max(grid_dim, block_dim) - 1 only, where each array is
  read inside its bounds.
\<close>

definition opencl_print_total_number_of_work_items_for_dim ::
  "isl_printer \<Rightarrow> ppcg_kernel \<Rightarrow> int \<Rightarrow> isl_printer" where
  "opencl_print_total_number_of_work_items_for_dim p kern i =
     (let grid_dim = isl_multi_pw_aff_dim (grid_size kern) isl_dim_set;
          block_dim' = n_block kern
      in if i < min grid_dim block_dim' then
           let bound_grid = isl_multi_pw_aff_get_pw_aff (grid_size kern) i;
               p = isl_printer_print_str p ''('';
               p = isl_printer_print_pw_aff p bound_grid;
               p = isl_printer_print_str p '') * '';
               p = isl_printer_print_int p (block_dim kern ! nat i)
           in p
         else if i \<ge> grid_dim then
           isl_printer_print_int p (block_dim kern ! nat i)
         else
           let bound_grid = isl_multi_pw_aff_get_pw_aff (grid_size kern) i
           in isl_printer_print_pw_aff p bound_grid)"

text \<open>The list that represents the total number of work items.\<close>

definition opencl_print_total_number_of_work_items_as_list ::
  "isl_printer \<Rightarrow> ppcg_kernel \<Rightarrow> isl_printer" where
  "opencl_print_total_number_of_work_items_as_list p kern =
     (let grid_dim = isl_multi_pw_aff_dim (grid_size kern) isl_dim_set;
          block_dim' = n_block kern
      in if grid_dim \<le> 0 \<or> block_dim' \<le> 0 then
           isl_printer_print_str p ''1''
         else
           fold (\<lambda>i p.
                   let p = (if i > 0 then isl_printer_print_str p '', '' else p)
                   in opencl_print_total_number_of_work_items_for_dim p kern i)
                [0..max grid_dim block_dim' - 1] p)"

subsection \<open>Kernel arguments\<close>

text \<open>
  Print a call to clSetKernelArg() which sets the argument \<open>arg_index\<close> of the
  kernel.  \<open>read_only_scalar\<close> tells whether the argument is a read-only scalar.
\<close>

definition opencl_set_kernel_argument ::
  "isl_printer \<Rightarrow> int \<Rightarrow> string \<Rightarrow> int \<Rightarrow> bool \<Rightarrow> isl_printer" where
  "opencl_set_kernel_argument p kernel_id' arg_name arg_index read_only_scalar' =
     (let p = isl_printer_start_line p;
          p = isl_printer_print_str p ''openclCheckReturn(clSetKernelArg(kernel'';
          p = isl_printer_print_int p kernel_id';
          p = isl_printer_print_str p '', '';
          p = isl_printer_print_int p arg_index;
          p = isl_printer_print_str p '', sizeof('';
          p = (if read_only_scalar' then
                 let p = isl_printer_print_str p arg_name;
                     p = isl_printer_print_str p ''), &''
                 in p
               else isl_printer_print_str p ''cl_mem), (void *) &dev_'');
          p = isl_printer_print_str p arg_name;
          p = isl_printer_print_str p ''));'';
          p = isl_printer_end_line p
      in p)"

text \<open>
  Set the arguments of the kernel by printing a call to clSetKernelArg() for
  each kernel argument.  The source drops the printer that
  \<open>opencl_set_kernel_argument\<close> returns; isl prints in place and returns the
  printer it was given, so the model threads it.
\<close>

definition opencl_set_kernel_arguments ::
  "isl_printer \<Rightarrow> gpu_prog \<Rightarrow> ppcg_kernel \<Rightarrow> isl_printer" where
  "opencl_set_kernel_arguments p prog kern =
     (let arg_index = 0;
          (p, arg_index) =
            fold (\<lambda>i (p, arg_index).
                    let space' = space (array prog ! nat i);
                        arr = isl_union_set_extract_set (arrays kern) space';
                        empty = isl_set_plain_is_empty arr
                    in if empty then (p, arg_index)
                       else
                         let ro = gpu_array_is_read_only_scalar (array prog ! nat i);
                             p = opencl_set_kernel_argument p (kernel_id kern)
                                   (name (array prog ! nat i)) arg_index ro
                         in (p, arg_index + 1))
                 [0..n_array prog - 1] (p, arg_index);
          space' = isl_union_set_get_space (arrays kern);
          nparam = isl_space_dim space' isl_dim_param;
          (p, arg_index) =
            fold (\<lambda>i (p, arg_index).
                    let name' = isl_space_get_dim_name space' isl_dim_param i;
                        p = opencl_set_kernel_argument p (kernel_id kern) name' arg_index True
                    in (p, arg_index + 1))
                 [0..nparam - 1] (p, arg_index);
          n = isl_space_dim (kernel_space kern) isl_dim_set;
          (p, arg_index) =
            fold (\<lambda>i (p, arg_index).
                    let name' = isl_space_get_dim_name (kernel_space kern) isl_dim_set i;
                        p = opencl_set_kernel_argument p (kernel_id kern) name' arg_index True
                    in (p, arg_index + 1))
                 [0..n - 1] (p, arg_index)
      in p)"

text \<open>
  Print the arguments to a kernel declaration or call.  If \<open>types\<close> is set,
  then print a declaration (including the types of the arguments).
  The arguments are printed in the following order: the arrays accessed by the
  kernel, the parameters, the host loop iterators.
\<close>

definition opencl_print_kernel_arguments ::
  "isl_printer \<Rightarrow> gpu_prog \<Rightarrow> ppcg_kernel \<Rightarrow> bool \<Rightarrow> isl_printer" where
  "opencl_print_kernel_arguments p prog kern types =
     (let first = True;
          (p, first) =
            fold (\<lambda>i (p, first).
                    let space' = space (array prog ! nat i);
                        arr = isl_union_set_extract_set (arrays kern) space';
                        empty = isl_set_plain_is_empty arr
                    in if empty then (p, first)
                       else
                         let p = (if \<not> first then isl_printer_print_str p '', '' else p);
                             p = (if types then
                                    gpu_array_info_print_declaration_argument p
                                      (array prog ! nat i) ''__global''
                                  else
                                    gpu_array_info_print_call_argument p
                                      (array prog ! nat i))
                         in (p, False))
                 [0..n_array prog - 1] (p, first);
          space' = isl_union_set_get_space (arrays kern);
          nparam = isl_space_dim space' isl_dim_param;
          (p, first) =
            fold (\<lambda>i (p, first).
                    let name' = isl_space_get_dim_name space' isl_dim_param i;
                        p = (if \<not> first then isl_printer_print_str p '', '' else p);
                        p = (if types then isl_printer_print_str p ''int '' else p);
                        p = isl_printer_print_str p name'
                    in (p, False))
                 [0..nparam - 1] (p, first);
          n = isl_space_dim (kernel_space kern) isl_dim_set;
          type' = isl_options_get_ast_iterator_type (ctx prog);
          (p, first) =
            fold (\<lambda>i (p, first).
                    let p = (if \<not> first then isl_printer_print_str p '', '' else p);
                        name' = isl_space_get_dim_name (kernel_space kern) isl_dim_set i;
                        p = (if types then
                               let p = isl_printer_print_str p type';
                                   p = isl_printer_print_str p '' ''
                               in p
                             else p);
                        p = isl_printer_print_str p name'
                    in (p, False))
                 [0..n - 1] (p, first)
      in p)"

text \<open>Print the header of the given kernel.\<close>

definition opencl_print_kernel_header ::
  "isl_printer \<Rightarrow> gpu_prog \<Rightarrow> ppcg_kernel \<Rightarrow> isl_printer" where
  "opencl_print_kernel_header p prog kern =
     (let p = isl_printer_start_line p;
          p = isl_printer_print_str p ''__kernel void kernel'';
          p = isl_printer_print_int p (kernel_id kern);
          p = isl_printer_print_str p ''('';
          p = opencl_print_kernel_arguments p prog kern True;
          p = isl_printer_print_str p '')'';
          p = isl_printer_end_line p
      in p)"

subsection \<open>The body of a kernel\<close>

definition opencl_print_kernel_iterators :: "isl_printer \<Rightarrow> ppcg_kernel \<Rightarrow> isl_printer" where
  "opencl_print_kernel_iterators p kern =
     (let ctx' = isl_ast_node_get_ctx (tree kern);
          type' = isl_options_get_ast_iterator_type ctx';
          n_grid = isl_multi_pw_aff_dim (grid_size kern) isl_dim_set;
          p = (if n_grid > 0 then
                 let p = isl_printer_start_line p;
                     p = isl_printer_print_str p type';
                     p = isl_printer_print_str p '' '';
                     p = fold (\<lambda>i p.
                                 let p = (if i \<noteq> 0 then isl_printer_print_str p '', '' else p);
                                     p = isl_printer_print_str p ''b'';
                                     p = isl_printer_print_int p i;
                                     p = isl_printer_print_str p '' = get_group_id('';
                                     p = isl_printer_print_int p i;
                                     p = isl_printer_print_str p '')''
                                 in p)
                              [0..n_grid - 1] p;
                     p = isl_printer_print_str p '';'';
                     p = isl_printer_end_line p
                 in p
               else p);
          p = (if n_block kern > 0 then
                 let p = isl_printer_start_line p;
                     p = isl_printer_print_str p type';
                     p = isl_printer_print_str p '' '';
                     p = fold (\<lambda>i p.
                                 let p = (if i \<noteq> 0 then isl_printer_print_str p '', '' else p);
                                     p = isl_printer_print_str p ''t'';
                                     p = isl_printer_print_int p i;
                                     p = isl_printer_print_str p '' = get_local_id('';
                                     p = isl_printer_print_int p i;
                                     p = isl_printer_print_str p '')''
                                 in p)
                              [0..n_block kern - 1] p;
                     p = isl_printer_print_str p '';'';
                     p = isl_printer_end_line p
                 in p
               else p)
      in p)"

text \<open>
  A variable of the kernel.  \<open>isl_vec_get_element_val\<close> reads position j of
  the size vector; the vector has one entry per index of the array.
\<close>

definition opencl_print_kernel_var :: "isl_printer \<Rightarrow> ppcg_kernel_var \<Rightarrow> isl_printer" where
  "opencl_print_kernel_var p var' =
     (let p = isl_printer_start_line p;
          p = (if var_type var' = ppcg_access_shared
               then isl_printer_print_str p ''__local '' else p);
          p = isl_printer_print_str p (type (var_array var'));
          p = isl_printer_print_str p '' '';
          p = isl_printer_print_str p (var_name var');
          p = fold (\<lambda>j p.
                      let p = isl_printer_print_str p ''['';
                          v = var_size var' ! nat j;
                          p = isl_printer_print_val p v;
                          p = isl_printer_print_str p '']''
                      in p)
                   [0..int (n_index (var_array var')) - 1] p;
          p = isl_printer_print_str p '';'';
          p = isl_printer_end_line p
      in p)"

definition opencl_print_kernel_vars :: "isl_printer \<Rightarrow> ppcg_kernel \<Rightarrow> isl_printer" where
  "opencl_print_kernel_vars p kern =
     fold (\<lambda>i p. opencl_print_kernel_var p (var kern ! nat i)) [0..n_var kern - 1] p"

text \<open>
  Print one kernel to the kernel file.  The printer \<open>kernel_c\<close> is the one
  writing to \<open>opencl->kernel_c\<close>; setting its output format to C prints
  nothing.  The statements of the body are printed by isl's AST printer, which
  is kept as one operation.
\<close>

definition opencl_print_kernel :: "gpu_prog \<Rightarrow> ppcg_kernel \<Rightarrow> isl_printer \<Rightarrow> isl_printer" where
  "opencl_print_kernel prog kern kernel_c' =
     (let p = kernel_c';
          p = opencl_print_kernel_header p prog kern;
          p = isl_printer_print_str p ''{'';
          p = isl_printer_end_line p;
          p = isl_printer_indent p 4;
          p = opencl_print_kernel_iterators p kern;
          p = opencl_print_kernel_vars p kern;
          p = isl_printer_end_line p;
          p = gpu_print_macros p (tree kern);
          p = isl_ast_node_print (tree kern) p;
          p = isl_printer_print_str p ''}'';
          p = isl_printer_end_line p
      in p)"

subsection \<open>Launching a kernel from the host\<close>

text \<open>
  Print the user statement of the host code to \<open>p\<close>: a block of statements
  that defines the grid and the work group and then launches the kernel.  The
  kernel itself is printed to the kernel file on the way; the result is the
  host printer together with the kernel file's printer.
\<close>

definition opencl_print_host_user ::
  "isl_printer \<Rightarrow> ppcg_kernel \<Rightarrow> gpu_prog \<Rightarrow> isl_printer \<Rightarrow> isl_printer \<times> isl_printer" where
  \<open>opencl_print_host_user p kern prog kernel_c' =
     (let p = isl_printer_start_line p;
          p = isl_printer_print_str p ''{'';
          p = isl_printer_end_line p;
          p = isl_printer_indent p 2;

          p = isl_printer_start_line p;
          p = isl_printer_print_str p ''size_t global_work_size['';
          p = (if n_block kern > 0 then isl_printer_print_int p (n_block kern)
               else isl_printer_print_int p 1);
          p = isl_printer_print_str p ''] = {'';
          p = opencl_print_total_number_of_work_items_as_list p kern;
          p = isl_printer_print_str p ''};'';
          p = isl_printer_end_line p;

          p = isl_printer_start_line p;
          p = isl_printer_print_str p ''size_t block_size['';
          p = (if n_block kern > 0 then isl_printer_print_int p (n_block kern)
               else isl_printer_print_int p 1);
          p = isl_printer_print_str p ''] = {'';
          p = opencl_print_block_sizes p kern;
          p = isl_printer_print_str p ''};'';
          p = isl_printer_end_line p;

          p = isl_printer_start_line p;
          p = isl_printer_print_str p ''cl_kernel kernel'';
          p = isl_printer_print_int p (kernel_id kern);
          p = isl_printer_print_str p '' = clCreateKernel(program, "kernel'';
          p = isl_printer_print_int p (kernel_id kern);
          p = isl_printer_print_str p ''", &err);'';
          p = isl_printer_end_line p;
          p = isl_printer_start_line p;
          p = isl_printer_print_str p ''openclCheckReturn(err);'';
          p = isl_printer_end_line p;

          p = opencl_set_kernel_arguments p prog kern;

          p = isl_printer_start_line p;
          p = isl_printer_print_str p ''openclCheckReturn(clEnqueueNDRangeKernel(queue, kernel'';
          p = isl_printer_print_int p (kernel_id kern);
          p = isl_printer_print_str p '', '';
          p = (if n_block kern > 0 then isl_printer_print_int p (n_block kern)
               else isl_printer_print_int p 1);
          p = isl_printer_print_str p '', NULL, global_work_size, block_size, 0, NULL, NULL));'';
          p = isl_printer_end_line p;
          p = isl_printer_start_line p;
          p = isl_printer_print_str p ''openclCheckReturn(clReleaseKernel(kernel'';
          p = isl_printer_print_int p (kernel_id kern);
          p = isl_printer_print_str p ''));'';
          p = isl_printer_end_line p;
          p = isl_printer_start_line p;
          p = isl_printer_print_str p ''clFinish(queue);'';
          p = isl_printer_end_line p;
          p = isl_printer_indent p (- 2);
          p = isl_printer_start_line p;
          p = isl_printer_print_str p ''}'';
          p = isl_printer_end_line p;

          p = isl_printer_start_line p;
          p = isl_printer_end_line p;

          kernel_c' = opencl_print_kernel prog kern kernel_c'
      in (p, kernel_c'))\<close>

subsection \<open>Device arrays\<close>

definition opencl_declare_device_arrays :: "isl_printer \<Rightarrow> gpu_prog \<Rightarrow> isl_printer" where
  "opencl_declare_device_arrays p prog =
     (let p = fold (\<lambda>i p.
                      if gpu_array_is_read_only_scalar (array prog ! nat i) then p
                      else
                        let p = isl_printer_start_line p;
                            p = isl_printer_print_str p ''cl_mem dev_'';
                            p = isl_printer_print_str p (name (array prog ! nat i));
                            p = isl_printer_print_str p '';'';
                            p = isl_printer_end_line p
                        in p)
                   [0..n_array prog - 1] p;
          p = isl_printer_start_line p;
          p = isl_printer_end_line p
      in p)"

text \<open>Given an array, check whether its positive size guard expression is trivial.\<close>

definition is_array_positive_size_guard_trivial :: "gpu_array_info \<Rightarrow> bool" where
  "is_array_positive_size_guard_trivial array' =
     (let guard = gpu_array_positive_size_guard array';
          is_trivial = isl_set_plain_is_universe guard
      in is_trivial)"

text \<open>
  Allocate a device array for array and copy the contents to the device if
  copy is set.  Emit a max-expression to ensure the device array can contain at
  least one element if the array's positive size guard expression is not
  trivial.
\<close>

definition allocate_device_array :: "isl_printer \<Rightarrow> gpu_array_info \<Rightarrow> bool \<Rightarrow> isl_printer" where
  "allocate_device_array p array' copy =
     (let p = ppcg_start_block p;

          p = isl_printer_start_line p;
          p = isl_printer_print_str p ''dev_'';
          p = isl_printer_print_str p (name array');
          p = isl_printer_print_str p '' = clCreateBuffer(context, '';
          p = isl_printer_print_str p ''CL_MEM_READ_WRITE'';

          p = (if \<not> copy then isl_printer_print_str p '', ''
               else isl_printer_print_str p '' | CL_MEM_COPY_HOST_PTR, '');

          need_lower_bound = (\<not> is_array_positive_size_guard_trivial array');
          p = (if need_lower_bound then
                 let p = isl_printer_print_str p ''max(sizeof('';
                     p = isl_printer_print_str p (type array');
                     p = isl_printer_print_str p ''), ''
                 in p
               else p);
          p = gpu_array_info_print_size p array';
          p = (if need_lower_bound then isl_printer_print_str p '')'' else p);

          p = (if \<not> copy then isl_printer_print_str p '', NULL''
               else if gpu_array_is_scalar array' then
                 let p = isl_printer_print_str p '', &'';
                     p = isl_printer_print_str p (name array')
                 in p
               else
                 let p = isl_printer_print_str p '', '';
                     p = isl_printer_print_str p (name array')
                 in p);

          p = isl_printer_print_str p '', &err);'';
          p = isl_printer_end_line p;
          p = isl_printer_start_line p;
          p = isl_printer_print_str p ''openclCheckReturn(err);'';
          p = isl_printer_end_line p;

          p = ppcg_end_block p
      in p)"

text \<open>Allocate device arrays and copy the contents of copy_in arrays into device.\<close>

definition opencl_allocate_device_arrays :: "isl_printer \<Rightarrow> gpu_prog \<Rightarrow> isl_printer" where
  "opencl_allocate_device_arrays p prog =
     (let p = fold (\<lambda>i p.
                      let array' = array prog ! nat i
                      in if gpu_array_is_read_only_scalar array' then p
                         else
                           let space' = space array';
                               read_i = isl_union_set_extract_set (copy_in prog) space';
                               empty = isl_set_plain_is_empty read_i
                           in allocate_device_array p array' (\<not> empty))
                   [0..n_array prog - 1] p;
          p = isl_printer_start_line p;
          p = isl_printer_end_line p
      in p)"

text \<open>Copy \<open>array\<close> back from the GPU to the host.\<close>

definition copy_array_from_device :: "isl_printer \<Rightarrow> gpu_array_info \<Rightarrow> isl_printer" where
  "copy_array_from_device p array' =
     (let p = isl_printer_start_line p;
          p = isl_printer_print_str p ''openclCheckReturn(clEnqueueReadBuffer(queue, dev_'';
          p = isl_printer_print_str p (name array');
          p = isl_printer_print_str p '', CL_TRUE, 0, '';
          p = gpu_array_info_print_size p array';
          p = (if gpu_array_is_scalar array' then isl_printer_print_str p '', &''
               else isl_printer_print_str p '', '');
          p = isl_printer_print_str p (name array');
          p = isl_printer_print_str p '', 0, NULL, NULL));'';
          p = isl_printer_end_line p
      in p)"

text \<open>
  Copy copy_out arrays back from the GPU to the host.  Only perform the copying
  for arrays with strictly positive size.
\<close>

definition opencl_copy_arrays_from_device :: "isl_printer \<Rightarrow> gpu_prog \<Rightarrow> isl_printer" where
  "opencl_copy_arrays_from_device p prog =
     (let copy_out' = copy_out prog;
          p = fold (\<lambda>i p.
                      let array' = array prog ! nat i;
                          space' = space array';
                          copy_out_i = isl_union_set_extract_set copy_out' space';
                          empty = isl_set_plain_is_empty copy_out_i
                      in if empty then p
                         else
                           let guard = gpu_array_positive_size_guard array'
                           in ppcg_print_guarded p guard (prog_context prog)
                                copy_array_from_device array')
                   [0..n_array prog - 1] p;
          p = isl_printer_start_line p;
          p = isl_printer_end_line p
      in p)"

text \<open>Free the device array corresponding to \<open>array\<close>.\<close>

definition release_device_array :: "isl_printer \<Rightarrow> gpu_array_info \<Rightarrow> isl_printer" where
  "release_device_array p array' =
     (let p = isl_printer_start_line p;
          p = isl_printer_print_str p ''openclCheckReturn(clReleaseMemObject(dev_'';
          p = isl_printer_print_str p (name array');
          p = isl_printer_print_str p ''));'';
          p = isl_printer_end_line p
      in p)"

text \<open>Free the device arrays.\<close>

definition opencl_release_device_arrays :: "isl_printer \<Rightarrow> gpu_prog \<Rightarrow> isl_printer" where
  "opencl_release_device_arrays p prog =
     fold (\<lambda>i p.
             let array' = array prog ! nat i
             in if gpu_array_is_read_only_scalar array' then p
                else release_device_array p array')
          [0..n_array prog - 1] p"

subsection \<open>Output files\<close>

text \<open>
  What the backend does to the file system is recorded as a trace.  A
  \<open>FILE *\<close> is the name of the open file, or \<open>None\<close> for the null pointer.
  Printing to a null \<open>FILE *\<close> is undefined behaviour in C; a run that reaches
  one has the result \<open>None\<close>.

  The world outside opencl.c: which names can be opened for writing, the two
  name helpers of ppcg.c, and the result of \<open>generate_gpu\<close> (gpu.c), whose call
  is recorded in the trace.  Names longer than the buffers of PATH_MAX bytes
  are not modelled.
\<close>

datatype io_event =
    Fopen string
  | Fopen_failed string
  | Stderr string
  | Fprintf string string
  | Fclose string
  | Generate_gpu

record world =
  can_open :: "string \<Rightarrow> bool"
  ppcg_extract_base_name :: "string \<Rightarrow> string"
  ppcg_base_name :: "string \<Rightarrow> string"
  generate_gpu_result :: int

record opencl_info =
  info_input :: string
  info_output :: "string option"
  kernel_c_name :: string
  host_c :: "string option"
  kernel_c :: "string option"
  kernel_h :: "string option"

definition fopen :: "world \<Rightarrow> string \<Rightarrow> io_event list \<Rightarrow> string option \<times> io_event list" where
  "fopen w name' tr =
     (if can_open w name' then (Some name', tr @ [Fopen name'])
      else (None, tr @ [Fopen_failed name']))"

definition fprintf :: "string option \<Rightarrow> string \<Rightarrow> io_event list \<Rightarrow> io_event list option" where
  "fprintf file text tr =
     (case file of None \<Rightarrow> None | Some f \<Rightarrow> Some (tr @ [Fprintf f text]))"

definition fclose :: "string \<Rightarrow> io_event list \<Rightarrow> io_event list" where
  "fclose f tr = tr @ [Fclose f]"

text \<open>The position of the last occurrence of a character, if there is one.\<close>

fun strrchr :: "string \<Rightarrow> char \<Rightarrow> nat option" where
  "strrchr [] c = None"
| "strrchr (x # xs) c =
     (case strrchr xs c of
        Some i \<Rightarrow> Some (Suc i)
      | None \<Rightarrow> if x = c then Some 0 else None)"

text \<open>Open the file called \<open>name\<close> for writing or print an error message.\<close>

definition open_or_croak :: "world \<Rightarrow> string \<Rightarrow> io_event list \<Rightarrow> string option \<times> io_event list" where
  \<open>open_or_croak w name' tr =
     (let (file, tr) = fopen w name' tr;
          tr = (if file = None
                then tr @ [Stderr (''Failed to open "'' @ name' @ ''" for writing\<newline>'')]
                else tr)
      in (file, tr))\<close>

text \<open>
  Open the host .c file and the kernel .h and .cl files for writing.  Their
  names are derived from \<open>info->output\<close> (or \<open>info->input\<close> if the user did not
  specify an output file name).  Add the necessary includes to these files.
  Return 0 on success and -1 on failure.
\<close>

definition opencl_open_files ::
  "world \<Rightarrow> opencl_info \<Rightarrow> io_event list \<Rightarrow> (int \<times> opencl_info \<times> io_event list) option" where
  \<open>opencl_open_files w info tr =
     (let (name', len, info, tr) =
            (case info_output info of
               Some output' \<Rightarrow>
                 let ext = strrchr output' (CHR ''.'');
                     len = (case ext of Some e \<Rightarrow> e | None \<Rightarrow> length output');
                     name' = take len output';
                     (f, tr) = open_or_croak w output' tr
                 in (name', len, info\<lparr>host_c := f\<rparr>, tr)
             | None \<Rightarrow>
                 let name' = ppcg_extract_base_name w (info_input info);
                     len = length name';
                     name' = take len name' @ ''_host.c'';
                     (f, tr) = open_or_croak w name' tr
                 in (name', len, info\<lparr>host_c := f\<rparr>, tr));
          info = info\<lparr>kernel_c_name := take len name' @ ''_kernel.cl''\<rparr>;
          (f, tr) = open_or_croak w (kernel_c_name info) tr;
          info = info\<lparr>kernel_c := f\<rparr>;
          name' = take len name' @ ''_kernel.h'';
          (f, tr) = open_or_croak w name' tr;
          info = info\<lparr>kernel_h := f\<rparr>
      in if host_c info = None \<or> kernel_c info = None \<or> host_c info = None then
           Some (- 1, info, tr)
         else do {
           tr \<leftarrow> fprintf (host_c info) ''#include <assert.h>\<newline>'' tr;
           tr \<leftarrow> fprintf (host_c info) ''#include <stdio.h>\<newline>'' tr;
           tr \<leftarrow> fprintf (host_c info)
                 (''#include "'' @ ppcg_base_name w name' @ ''"\<newline>\<newline>'') tr;
           tr \<leftarrow> fprintf (kernel_h info) ''#if defined(__APPLE__)\<newline>'' tr;
           tr \<leftarrow> fprintf (kernel_h info) ''#include <OpenCL/opencl.h>\<newline>'' tr;
           tr \<leftarrow> fprintf (kernel_h info) ''#else\<newline>'' tr;
           tr \<leftarrow> fprintf (kernel_h info) ''#include <CL/opencl.h>\<newline>'' tr;
           tr \<leftarrow> fprintf (kernel_h info) ''#endif\<newline>\<newline>'' tr;
           tr \<leftarrow> fprintf (kernel_h info)
                 ''cl_device_id opencl_create_device(int use_gpu);\<newline>'' tr;
           tr \<leftarrow> fprintf (kernel_h info)
                 (''cl_program opencl_build_program(cl_context ctx, '' @
                  ''cl_device_id dev, const char *filename, '' @
                  ''const char *opencl_options);\<newline>'') tr;
           tr \<leftarrow> fprintf (kernel_h info)
                 ''const char *opencl_error_string(cl_int error);\<newline>'' tr;
           Some (0, info, tr)
         })\<close>

text \<open>Close all output files.\<close>

definition opencl_close_files :: "opencl_info \<Rightarrow> io_event list \<Rightarrow> io_event list" where
  "opencl_close_files info tr =
     (let tr = (case kernel_c info of Some f \<Rightarrow> fclose f tr | None \<Rightarrow> tr);
          tr = (case kernel_h info of Some f \<Rightarrow> fclose f tr | None \<Rightarrow> tr);
          tr = (case host_c info of Some f \<Rightarrow> fclose f tr | None \<Rightarrow> tr)
      in tr)"

text \<open>
  \<open>generate_gpu\<close> does all the hard work and calls back for printing the AST.
  It is defined in gpu.c; its call is recorded and its result taken from the
  world.
\<close>

definition generate_gpu :: "world \<Rightarrow> opencl_info \<Rightarrow> io_event list \<Rightarrow> int \<times> io_event list" where
  "generate_gpu w info tr = (generate_gpu_result w, tr @ [Generate_gpu])"

text \<open>
  Transform the code in the file called \<open>input\<close>: open the output files, let
  \<open>generate_gpu\<close> work, and close the files after it has finished.
\<close>

definition generate_opencl ::
  "world \<Rightarrow> string \<Rightarrow> string option \<Rightarrow> (int \<times> io_event list) option" where
  "generate_opencl w input' output' =
     (let opencl = \<lparr>info_input = input', info_output = output', kernel_c_name = [],
                     host_c = None, kernel_c = None, kernel_h = None\<rparr>
      in do {
           (r, opencl, tr) \<leftarrow> opencl_open_files w opencl [];
           let (r, tr) = (if r \<ge> 0 then generate_gpu w opencl tr else (r, tr));
           let tr = opencl_close_files opencl tr;
           Some (r, tr)
         })"

section \<open>What the printed code is said to contain\<close>

text \<open>
  The definitions of this section follow the description of the backend, not
  its code: they say what each piece of output is supposed to be.  The theorems
  below compare them with the functions above.
\<close>

subsection \<open>Lists with separators\<close>

text \<open>The elements of a list, with a comma and a space between neighbours.\<close>

fun comma_separated :: "out list list \<Rightarrow> out list" where
  "comma_separated [] = []"
| "comma_separated [x] = x"
| "comma_separated (x # y # ys) = x @ [Print_str '', ''] @ comma_separated (y # ys)"

text \<open>The same list continued: a separator comes first unless \<open>first\<close> is set.\<close>

fun comma_from :: "bool \<Rightarrow> out list list \<Rightarrow> out list" where
  "comma_from first [] = []"
| "comma_from first (x # xs) =
     (if first then [] else [Print_str '', '']) @ x @ comma_from False xs"

subsection \<open>Work sizes\<close>

text \<open>
  With B block dimensions b and G grid dimensions g, the total number of work
  items in dimension i of 0 .. max(B,G)-1 is g[i] * b[i] (the grid bound in
  parentheses) if i < min(B,G), b[i] alone if i >= G, and g[i] alone otherwise.
  If G <= 0 or B <= 0 the list is the single literal 1.
\<close>

definition total_work_items :: "int list \<Rightarrow> isl_pw_aff list \<Rightarrow> out list list" where
  "total_work_items b g =
     (let B = int (length b); G = int (length g)
      in if G \<le> 0 \<or> B \<le> 0 then [[Print_str ''1'']]
         else map (\<lambda>i. if i < min B G then
                          [Print_str ''('', Print_pw_aff (g ! nat i), Print_str '') * '',
                           Print_int (b ! nat i)]
                        else if i \<ge> G then [Print_int (b ! nat i)]
                        else [Print_pw_aff (g ! nat i)])
                  [0..max B G - 1])"

text \<open>The block sizes: b[i] for i < B, or the literal 1 when B = 0.\<close>

definition block_sizes :: "int list \<Rightarrow> out list list" where
  "block_sizes b = (if b = [] then [[Print_str ''1'']] else map (\<lambda>x. [Print_int x]) b)"

subsection \<open>The ordered arguments of a kernel\<close>

datatype kernel_arg = Array_arg gpu_array_info | Param_arg string | Iterator_arg string

text \<open>An array is accessed by a kernel if its part of the kernel's footprint is not empty.\<close>

definition accessed :: "ppcg_kernel \<Rightarrow> gpu_array_info \<Rightarrow> bool" where
  "accessed kern a =
     (\<not> isl_set_plain_is_empty (isl_union_set_extract_set (arrays kern) (space a)))"

text \<open>
  The accessed arrays in program order, then the parameters of the space of
  the kernel's footprint, then the host loop iterators of the kernel.
\<close>

definition ordered_arguments :: "gpu_prog \<Rightarrow> ppcg_kernel \<Rightarrow> kernel_arg list" where
  "ordered_arguments prog kern =
     map Array_arg (filter (accessed kern) (array prog)) @
     map Param_arg (space_params (isl_union_set_get_space (arrays kern))) @
     map Iterator_arg (space_dims (kernel_space kern))"

fun arg_name :: "kernel_arg \<Rightarrow> string" where
  "arg_name (Array_arg a) = name a"
| "arg_name (Param_arg n) = n"
| "arg_name (Iterator_arg n) = n"

text \<open>Read-only scalars, parameters and iterators are passed by value.\<close>

fun by_value :: "kernel_arg \<Rightarrow> bool" where
  "by_value (Array_arg a) = gpu_array_is_read_only_scalar a"
| "by_value (Param_arg n) = True"
| "by_value (Iterator_arg n) = True"

text \<open>
  The statement binding argument \<open>a\<close> to position \<open>k\<close> of kernel \<open>kid\<close>: the size
  and the address of the host variable for an argument passed by value, the
  size of a buffer handle and the address of the device buffer otherwise.
\<close>

definition binding_statement :: "int \<Rightarrow> int \<Rightarrow> kernel_arg \<Rightarrow> out list" where
  "binding_statement kid k a =
     [Start_line, Print_str ''openclCheckReturn(clSetKernelArg(kernel'', Print_int kid,
      Print_str '', '', Print_int k, Print_str '', sizeof(''] @
     (if by_value a then [Print_str (arg_name a), Print_str ''), &'']
      else [Print_str ''cl_mem), (void *) &dev_'']) @
     [Print_str (arg_name a), Print_str ''));'', End_line]"

text \<open>The binding statements of a list of arguments, the first at position \<open>k\<close>.\<close>

fun bindings :: "int \<Rightarrow> int \<Rightarrow> kernel_arg list \<Rightarrow> out list" where
  "bindings kid k [] = []"
| "bindings kid k (a # as) = binding_statement kid k a @ bindings kid (k + 1) as"

text \<open>
  An argument in a declaration: an array goes to the declaration printer of
  gpu_print.c with the qualifier of global memory, a parameter is an \<open>int\<close>, an
  iterator has the type \<open>ty\<close>.  In a call only the argument is printed.
\<close>

fun declaration_argument :: "string \<Rightarrow> kernel_arg \<Rightarrow> out list" where
  "declaration_argument ty (Array_arg a) = [Print_declaration_argument a ''__global'']"
| "declaration_argument ty (Param_arg n) = [Print_str ''int '', Print_str n]"
| "declaration_argument ty (Iterator_arg n) = [Print_str ty, Print_str '' '', Print_str n]"

fun call_argument :: "kernel_arg \<Rightarrow> out list" where
  "call_argument (Array_arg a) = [Print_call_argument a]"
| "call_argument (Param_arg n) = [Print_str n]"
| "call_argument (Iterator_arg n) = [Print_str n]"

definition argument_text :: "bool \<Rightarrow> string \<Rightarrow> kernel_arg \<Rightarrow> out list" where
  "argument_text types ty a = (if types then declaration_argument ty a else call_argument a)"

subsection \<open>Device buffers\<close>

text \<open>Every array but a read-only scalar has a device buffer.\<close>

definition has_device_buffer :: "gpu_array_info \<Rightarrow> bool" where
  "has_device_buffer a = (\<not> gpu_array_is_read_only_scalar a)"

text \<open>
  An array is copied in (out) if its part of the global read (write) footprint
  is not empty.
\<close>

definition copied_in :: "gpu_prog \<Rightarrow> gpu_array_info \<Rightarrow> bool" where
  "copied_in prog a =
     (\<not> isl_set_plain_is_empty (isl_union_set_extract_set (copy_in prog) (space a)))"

definition copied_out :: "gpu_prog \<Rightarrow> gpu_array_info \<Rightarrow> bool" where
  "copied_out prog a =
     (\<not> isl_set_plain_is_empty (isl_union_set_extract_set (copy_out prog) (space a)))"

definition device_declaration :: "gpu_array_info \<Rightarrow> out list" where
  "device_declaration a =
     [Start_line, Print_str ''cl_mem dev_'', Print_str (name a), Print_str '';'', End_line]"

text \<open>
  The size of the buffer: the size of the array, with the size of one element
  as a lower bound unless the positive size guard is trivial.
\<close>

definition allocation_size :: "gpu_array_info \<Rightarrow> out list" where
  "allocation_size a =
     (if is_array_positive_size_guard_trivial a then [Print_size a]
      else [Print_str ''max(sizeof('', Print_str (type a), Print_str ''), '', Print_size a,
            Print_str '')''])"

text \<open>
  The host pointer given to the allocation: NULL if nothing is copied, else the
  host array, or the address of the host variable for a scalar.
\<close>

definition host_pointer :: "gpu_array_info \<Rightarrow> bool \<Rightarrow> out list" where
  "host_pointer a copy =
     (if \<not> copy then [Print_str '', NULL'']
      else if gpu_array_is_scalar a then [Print_str '', &'', Print_str (name a)]
      else [Print_str '', '', Print_str (name a)])"

definition allocation :: "gpu_array_info \<Rightarrow> bool \<Rightarrow> out list" where
  "allocation a copy =
     [Start_block, Start_line, Print_str ''dev_'', Print_str (name a),
      Print_str '' = clCreateBuffer(context, '', Print_str ''CL_MEM_READ_WRITE'',
      Print_str (if copy then '' | CL_MEM_COPY_HOST_PTR, '' else '', '')] @
     allocation_size a @ host_pointer a copy @
     [Print_str '', &err);'', End_line, Start_line, Print_str ''openclCheckReturn(err);'',
      End_line, End_block]"

text \<open>Reading a buffer back, and the same inside the positive size guard.\<close>

definition read_back :: "gpu_array_info \<Rightarrow> out list" where
  "read_back a =
     [Start_line, Print_str ''openclCheckReturn(clEnqueueReadBuffer(queue, dev_'',
      Print_str (name a), Print_str '', CL_TRUE, 0, '', Print_size a,
      Print_str (if gpu_array_is_scalar a then '', &'' else '', ''), Print_str (name a),
      Print_str '', 0, NULL, NULL));'', End_line]"

definition copy_back :: "gpu_prog \<Rightarrow> gpu_array_info \<Rightarrow> out list" where
  "copy_back prog a =
     (if is_array_positive_size_guard_trivial a then read_back a
      else [Guarded (gpu_array_positive_size_guard a) (prog_context prog) (read_back a)])"

definition release :: "gpu_array_info \<Rightarrow> out list" where
  "release a =
     [Start_line, Print_str ''openclCheckReturn(clReleaseMemObject(dev_'', Print_str (name a),
      Print_str ''));'', End_line]"

subsection \<open>Example inputs\<close>

text \<open>
  A program with an array \<open>A\<close> of parametric size that is only written, a
  read-only scalar \<open>B\<close> and an array \<open>C\<close> of constant size that is only read,
  and a kernel that accesses \<open>A\<close> and \<open>B\<close>.
\<close>

definition array_A :: gpu_array_info where
  "array_A = \<lparr>space = \<lparr>space_params = [''N''], space_tuple = ''A'', space_dims = [''i0'']\<rparr>,
               type = ''float'', name = ''A'', n_index = 1, scalar = False,
               read_only_scalar = False, positive_size_guard = Constrained ''N >= 1''\<rparr>"

definition array_B :: gpu_array_info where
  "array_B = \<lparr>space = \<lparr>space_params = [''N''], space_tuple = ''B'', space_dims = []\<rparr>,
               type = ''int'', name = ''B'', n_index = 0, scalar = True,
               read_only_scalar = True, positive_size_guard = Plain_universe\<rparr>"

definition array_C :: gpu_array_info where
  "array_C = \<lparr>space = \<lparr>space_params = [''N''], space_tuple = ''C'', space_dims = [''i0'']\<rparr>,
               type = ''float'', name = ''C'', n_index = 1, scalar = False,
               read_only_scalar = False, positive_size_guard = Plain_universe\<rparr>"

definition prog_ex :: gpu_prog where
  "prog_ex = \<lparr>ctx = \<lparr>ast_iterator_type = ''long''\<rparr>,
     array = [array_A, array_B, array_C],
     copy_in = \<lparr>uset_params = [''N''], uset_sets = [(''C'', Constrained ''C[i0]'')]\<rparr>,
     copy_out = \<lparr>uset_params = [''N''], uset_sets = [(''A'', Constrained ''A[i0]'')]\<rparr>,
     prog_context = Constrained ''N >= 0''\<rparr>"

definition tree_ex :: isl_ast_node where
  "tree_ex = \<lparr>node_ctx = \<lparr>ast_iterator_type = ''long''\<rparr>, node_text = ''body''\<rparr>"

definition kern_ex :: ppcg_kernel where
  "kern_ex = \<lparr>kernel_id = 0, block_dim = [32], grid_size = [Pw_aff ''10'', Pw_aff ''5''],
     arrays = \<lparr>uset_params = [''N''],
                uset_sets = [(''A'', Constrained ''A[i0]''), (''B'', Plain_universe)]\<rparr>,
     kernel_space = \<lparr>space_params = [''N''], space_tuple = ''kernel0'', space_dims = [''h0'']\<rparr>,
     var = [], tree = tree_ex\<rparr>"

text \<open>Kernels that access nothing, with given block sizes and grid sizes.\<close>

definition kern_sizes :: "int list \<Rightarrow> isl_pw_aff list \<Rightarrow> ppcg_kernel" where
  "kern_sizes b g = \<lparr>kernel_id = 0, block_dim = b, grid_size = g,
     arrays = \<lparr>uset_params = [], uset_sets = []\<rparr>,
     kernel_space = \<lparr>space_params = [], space_tuple = ''kernel0'', space_dims = []\<rparr>,
     var = [], tree = tree_ex\<rparr>"

definition prog_empty :: gpu_prog where
  "prog_empty = \<lparr>ctx = \<lparr>ast_iterator_type = ''long''\<rparr>, array = [],
     copy_in = \<lparr>uset_params = [], uset_sets = []\<rparr>,
     copy_out = \<lparr>uset_params = [], uset_sets = []\<rparr>,
     prog_context = Plain_universe\<rparr>"

text \<open>A kernel whose only argument is the parameter \<open>N\<close>.\<close>

definition kern_param :: ppcg_kernel where
  "kern_param = \<lparr>kernel_id = 0, block_dim = [32], grid_size = [Pw_aff ''10''],
     arrays = \<lparr>uset_params = [''N''], uset_sets = []\<rparr>,
     kernel_space = \<lparr>space_params = [''N''], space_tuple = ''kernel0'', space_dims = []\<rparr>,
     var = [], tree = tree_ex\<rparr>"

text \<open>
  A world in which every file can be opened but the one called \<open>unwritable\<close>.
  The base name of the input is taken to be \<open>in\<close>.
\<close>

definition world_without :: "string \<Rightarrow> world" where
  "world_without unwritable =
     \<lparr>can_open = (\<lambda>n. n \<noteq> unwritable), ppcg_extract_base_name = (\<lambda>n. ''in''),
      ppcg_base_name = (\<lambda>n. n), generate_gpu_result = 0\<rparr>"

section \<open>Properties of the printed code\<close>

subsection \<open>Loops\<close>

text \<open>
  A loop \<open>for (i = 0; i < n; ++i)\<close> is a fold over the indices 0 .. n - 1.  A
  loop that only reads element \<open>i\<close> of a list is a fold over the list, and a
  loop that only appends to the printer prints the concatenation of what each
  round appends.
\<close>

lemma upto_from_0: "[0..int n - 1] = map int [0..<n]"
proof (induction n)
  case 0
  show ?case by simp
next
  case (Suc n)
  have "[0..int (Suc n) - 1] = [0..int n - 1] @ [int n]"
    using upto_rec2 [of 0 "int n"] by simp
  with Suc show ?case by simp
qed

lemma fold_append_concat:
  assumes "\<And>i p. f i p = p @ h i"
  shows "fold f is p = p @ concat (map h is)"
  using assms by (induction "is" arbitrary: p) simp_all

lemma fold_index:
  "fold (\<lambda>i. f (xs ! nat i)) [0..int (length xs) - 1] s = fold f xs s"
proof -
  have "fold (\<lambda>i. f (xs ! nat i)) [0..int (length xs) - 1] s
        = fold ((\<lambda>i. f (xs ! nat i)) \<circ> int) [0..<length xs] s"
    by (simp add: upto_from_0 fold_map)
  also have "\<dots> = fold (f \<circ> (!) xs) [0..<length xs] s"
    by (simp add: comp_def)
  also have "\<dots> = fold f (map ((!) xs) [0..<length xs]) s"
    by (simp add: fold_map)
  finally show ?thesis by (simp add: map_nth)
qed

text \<open>Every operation of a printer appends to it.\<close>

lemmas printer_defs =
  isl_printer_start_line_def isl_printer_end_line_def isl_printer_indent_def
  isl_printer_print_str_def isl_printer_print_int_def isl_printer_print_val_def
  isl_printer_print_pw_aff_def isl_ast_node_print_def ppcg_start_block_def
  ppcg_end_block_def gpu_array_info_print_size_def
  gpu_array_info_print_declaration_argument_def
  gpu_array_info_print_call_argument_def gpu_print_macros_def

lemma for_dim_append:
  "opencl_print_total_number_of_work_items_for_dim p kern i =
   p @ opencl_print_total_number_of_work_items_for_dim [] kern i"
  by (simp add: opencl_print_total_number_of_work_items_for_dim_def Let_def printer_defs)

text \<open>A loop that prints a separator before every element but the first.\<close>

lemma comma_separated_Cons:
  "comma_separated (x # xs) = x @ concat (map (\<lambda>y. Print_str '', '' # y) xs)"
  by (induction xs arbitrary: x) simp_all

lemma loop_comma_separated:
  "concat (map (\<lambda>i. (if i > 0 then [Print_str '', ''] else []) @ h i) [0..m])
   = comma_separated (map h [0..m])"
proof (cases "0 \<le> m")
  case True
  then have u: "[0..m] = 0 # [1..m]"
    using upto_rec1 [of 0 m] by simp
  have "concat (map (\<lambda>i. (if i > 0 then [Print_str '', ''] else []) @ h i) [1..m])
        = concat (map (\<lambda>i. Print_str '', '' # h i) [1..m])"
    by (rule arg_cong [where f = concat], rule map_cong) auto
  then show ?thesis
    by (simp add: u comma_separated_Cons comp_def)
next
  case False
  then show ?thesis by simp
qed

lemma loop_comma_separated_neq:
  "concat (map (\<lambda>i. (if i \<noteq> 0 then [Print_str '', ''] else []) @ h i) [0..m])
   = comma_separated (map h [0..m])"
proof -
  have "concat (map (\<lambda>i. (if i \<noteq> 0 then [Print_str '', ''] else []) @ h i) [0..m])
        = concat (map (\<lambda>i. (if i > 0 then [Print_str '', ''] else []) @ h i) [0..m])"
    by (rule arg_cong [where f = concat], rule map_cong) auto
  then show ?thesis by (simp add: loop_comma_separated)
qed

text \<open>What the functions for the work sizes print.\<close>

lemma as_list_shape:
  "opencl_print_total_number_of_work_items_as_list p kern =
   p @ comma_separated (total_work_items (block_dim kern) (grid_size kern))"
proof (cases "int (length (grid_size kern)) \<le> 0 \<or> int (length (block_dim kern)) \<le> 0")
  case True
  then show ?thesis
    by (auto simp add: opencl_print_total_number_of_work_items_as_list_def total_work_items_def
        isl_multi_pw_aff_dim_def n_block_def isl_printer_print_str_def)
next
  case False
  have step: "opencl_print_total_number_of_work_items_for_dim
                (if 0 < i then isl_printer_print_str p '', '' else p) kern i
        = p @ ((if i > 0 then [Print_str '', ''] else []) @
               opencl_print_total_number_of_work_items_for_dim [] kern i)" for i p
    using for_dim_append [of "p @ [Print_str '', '']" kern i] for_dim_append [of p kern i]
    by (simp add: isl_printer_print_str_def)
  have dim: "\<And>i. opencl_print_total_number_of_work_items_for_dim [] kern i =
     (if i < min (int (length (block_dim kern))) (int (length (grid_size kern))) then
                          [Print_str ''('', Print_pw_aff (grid_size kern ! nat i), Print_str '') * '',
                           Print_int (block_dim kern ! nat i)]
                        else if i \<ge> int (length (grid_size kern)) then [Print_int (block_dim kern ! nat i)]
                        else [Print_pw_aff (grid_size kern ! nat i)])"
    by (simp add: opencl_print_total_number_of_work_items_for_dim_def Let_def printer_defs
         isl_multi_pw_aff_dim_def n_block_def isl_multi_pw_aff_get_pw_aff_def min.commute)
  from False show ?thesis
    unfolding opencl_print_total_number_of_work_items_as_list_def total_work_items_def
    apply (simp only: Let_def isl_multi_pw_aff_dim_def n_block_def if_False)
    apply (subst fold_append_concat [OF step])
    apply (simp only: loop_comma_separated dim max.commute)
    done
qed

lemma block_sizes_shape:
  "opencl_print_block_sizes p kern = p @ comma_separated (block_sizes (block_dim kern))"
proof (cases "block_dim kern = []")
  case True
  then show ?thesis
    by (simp add: opencl_print_block_sizes_def n_block_def block_sizes_def isl_printer_print_str_def)
next
  case False
  have step: "isl_printer_print_int (if i \<noteq> 0 then isl_printer_print_str p '', '' else p)
                (block_dim kern ! nat i)
              = p @ ((if i \<noteq> 0 then [Print_str '', ''] else []) @ [Print_int (block_dim kern ! nat i)])"
    for i p
    by (simp add: isl_printer_print_str_def isl_printer_print_int_def)
  have "map (\<lambda>i. [Print_int (block_dim kern ! nat i)]) [0..int (length (block_dim kern)) - 1]
        = map (\<lambda>x. [Print_int x]) (map ((!) (block_dim kern)) [0..<length (block_dim kern)])"
    by (simp add: upto_from_0 comp_def)
  then have m: "map (\<lambda>i. [Print_int (block_dim kern ! nat i)]) [0..int (length (block_dim kern)) - 1]
        = map (\<lambda>x. [Print_int x]) (block_dim kern)"
    by (simp only: map_nth)
  from False show ?thesis
    unfolding opencl_print_block_sizes_def block_sizes_def
    apply (simp only: Let_def n_block_def)
    apply (subst fold_append_concat [OF step])
    apply (simp only: loop_comma_separated_neq m)
    apply simp
    done
qed

text \<open>
  The three loops of \<open>opencl_set_kernel_arguments\<close>, each continuing the count
  of the one before.
\<close>

lemma set_kernel_argument_shape:
  "opencl_set_kernel_argument p kid (arg_name a) k (by_value a) = p @ binding_statement kid k a"
  by (simp add: opencl_set_kernel_argument_def binding_statement_def Let_def printer_defs)

lemma bindings_append:
  "bindings kid k (xs @ ys) = bindings kid k xs @ bindings kid (k + int (length xs)) ys"
  by (induction xs arbitrary: k) (simp_all add: add.assoc)

lemma set_arguments_arrays_loop:
  "fold (\<lambda>a (p, arg_index).
           if isl_set_plain_is_empty (isl_union_set_extract_set (arrays kern) (space a))
           then (p, arg_index)
           else (opencl_set_kernel_argument p kid (name a) arg_index
                   (gpu_array_is_read_only_scalar a), arg_index + 1))
        xs (p, k)
   = (p @ bindings kid k (map Array_arg (filter (accessed kern) xs)),
      k + int (length (filter (accessed kern) xs)))"
proof (induction xs arbitrary: p k)
  case Nil
  show ?case by simp
next
  case (Cons a xs)
  show ?case
  proof (cases "accessed kern a")
    case True
    then show ?thesis
      using Cons [of "p @ binding_statement kid k (Array_arg a)" "k + 1"]
        set_kernel_argument_shape [of p kid "Array_arg a" k]
      by (simp add: accessed_def)
  next
    case False
    then show ?thesis
      using Cons [of p k] by (simp add: accessed_def)
  qed
qed

lemma set_arguments_names_loop:
  assumes "\<And>n. arg_name (C n) = n" and "\<And>n. by_value (C n)"
  shows "fold (\<lambda>n (p, arg_index).
           (opencl_set_kernel_argument p kid n arg_index True, arg_index + 1))
        ns (p, k)
   = (p @ bindings kid k (map C ns), k + int (length ns))"
proof (induction ns arbitrary: p k)
  case Nil
  show ?case by simp
next
  case (Cons n ns)
  have "opencl_set_kernel_argument p kid n k True = p @ binding_statement kid k (C n)"
    using set_kernel_argument_shape [of p kid "C n" k] assms by simp
  then show ?case
    using Cons [of "p @ binding_statement kid k (C n)" "k + 1"] by simp
qed

lemma bindings_names:
  "bindings kid k (map Param_arg ns) = bindings kid k (map Iterator_arg ns)"
  by (induction ns arbitrary: k) (simp_all add: binding_statement_def)

lemma set_kernel_arguments_shape:
  "opencl_set_kernel_arguments p prog kern =
   p @ bindings (kernel_id kern) 0 (ordered_arguments prog kern)"
proof -
  let ?kid = "kernel_id kern"
  let ?A = "filter (accessed kern) (array prog)"
  let ?P = "uset_params (arrays kern)"
  let ?I = "space_dims (kernel_space kern)"
  have a: "fold (\<lambda>i (p, arg_index).
              if isl_set_plain_is_empty
                   (isl_union_set_extract_set (arrays kern) (space (array prog ! nat i)))
              then (p, arg_index)
              else (opencl_set_kernel_argument p ?kid (name (array prog ! nat i)) arg_index
                      (gpu_array_is_read_only_scalar (array prog ! nat i)), arg_index + 1))
            [0..int (length (array prog)) - 1] (p, 0)
         = (p @ bindings ?kid 0 (map Array_arg ?A), int (length ?A))"
    using fold_index [where xs = "array prog" and s = "(p, 0::int)" and
        f = "\<lambda>a (p, arg_index).
           if isl_set_plain_is_empty (isl_union_set_extract_set (arrays kern) (space a))
           then (p, arg_index)
           else (opencl_set_kernel_argument p ?kid (name a) arg_index
                   (gpu_array_is_read_only_scalar a), arg_index + 1)"]
      set_arguments_arrays_loop [of kern ?kid "array prog" p 0]
    by simp
  have b: "fold (\<lambda>i (p, arg_index).
              (opencl_set_kernel_argument p ?kid (ns ! nat i) arg_index True, arg_index + 1))
            [0..int (length ns) - 1] (q, k)
         = (q @ bindings ?kid k (map C ns), k + int (length ns))"
    if "\<And>n. arg_name (C n) = n" and "\<And>n. by_value (C n)" for ns q k C
    using fold_index [where xs = ns and s = "(q, k)" and
        f = "\<lambda>n (p, arg_index).
           (opencl_set_kernel_argument p ?kid n arg_index True, arg_index + 1)"]
      set_arguments_names_loop [of C ?kid ns q k] that
    by simp
  show ?thesis
    unfolding opencl_set_kernel_arguments_def ordered_arguments_def Let_def n_array_def
      isl_space_dim_def isl_space_get_dim_name_def isl_union_set_get_space_def
    by (simp add: a b [where C = Param_arg] bindings_append bindings_names)
qed

text \<open>
  The three loops of \<open>opencl_print_kernel_arguments\<close>, each continuing the
  list of the one before.
\<close>

lemma comma_from_False: "comma_from False xs = concat (map (\<lambda>y. Print_str '', '' # y) xs)"
  by (induction xs) simp_all

lemma comma_from_True: "comma_from True xs = comma_separated xs"
  by (cases xs) (simp_all add: comma_from_False comma_separated_Cons)

lemma comma_from_append:
  "comma_from first (xs @ ys) = comma_from first xs @ comma_from (first \<and> xs = []) ys"
  by (induction xs arbitrary: first) simp_all

lemma comma_filter_loop:
  assumes step: "\<And>x p first. P x \<Longrightarrow>
             f x (p, first) = (p @ (if first then [] else [Print_str '', '']) @ h x, False)"
    and skip: "\<And>x s. \<not> P x \<Longrightarrow> f x s = s"
  shows "fold f xs (p, first)
         = (p @ comma_from first (map h (filter P xs)), first \<and> filter P xs = [])"
proof (induction xs arbitrary: p first)
  case Nil
  show ?case by simp
next
  case (Cons x xs)
  show ?case
  proof (cases "P x")
    case True
    then show ?thesis
      using Cons [of "p @ (if first then [] else [Print_str '', '']) @ h x" False] step [of x p first]
      by simp
  next
    case False
    then show ?thesis
      using Cons [of p first] skip [of x "(p, first)"] by simp
  qed
qed

lemma print_kernel_arguments_shape:
  "opencl_print_kernel_arguments p prog kern types =
   p @ comma_separated
         (map (argument_text types (ast_iterator_type (ctx prog))) (ordered_arguments prog kern))"
proof -
  let ?ty = "ast_iterator_type (ctx prog)"
  let ?R = "argument_text types ?ty"
  let ?A = "filter (accessed kern) (array prog)"
  let ?fa = "\<lambda>a (p, first).
              if isl_set_plain_is_empty (isl_union_set_extract_set (arrays kern) (space a))
              then (p, first)
              else (if types
                    then gpu_array_info_print_declaration_argument
                           (if \<not> first then isl_printer_print_str p '', '' else p) a ''__global''
                    else gpu_array_info_print_call_argument
                           (if \<not> first then isl_printer_print_str p '', '' else p) a,
                    False)"
  let ?fp = "\<lambda>n (p, first).
              (isl_printer_print_str
                 (if types
                  then isl_printer_print_str
                         (if \<not> first then isl_printer_print_str p '', '' else p) ''int ''
                  else if \<not> first then isl_printer_print_str p '', '' else p) n,
               False)"
  let ?fi = "\<lambda>n (p, first).
              (isl_printer_print_str
                 (if types
                  then isl_printer_print_str
                         (isl_printer_print_str
                            (if \<not> first then isl_printer_print_str p '', '' else p) ?ty) '' ''
                  else if \<not> first then isl_printer_print_str p '', '' else p) n,
               False)"
  have la: "fold ?fa xs (q, first)
            = (q @ comma_from first (map (?R \<circ> Array_arg) (filter (accessed kern) xs)),
               first \<and> filter (accessed kern) xs = [])" for xs q first
    by (rule comma_filter_loop)
       (auto simp add: accessed_def argument_text_def printer_defs)
  have lp: "fold ?fp ns (q, first)
            = (q @ comma_from first (map (?R \<circ> Param_arg) (filter (\<lambda>_. True) ns)),
               first \<and> filter (\<lambda>_. True) ns = [])" for ns q first
    by (rule comma_filter_loop)
       (auto simp add: argument_text_def printer_defs)
  have li: "fold ?fi ns (q, first)
            = (q @ comma_from first (map (?R \<circ> Iterator_arg) (filter (\<lambda>_. True) ns)),
               first \<and> filter (\<lambda>_. True) ns = [])" for ns q first
    by (rule comma_filter_loop)
       (auto simp add: argument_text_def printer_defs)
  have ia: "fold (\<lambda>i. ?fa (array prog ! nat i)) [0..int (length (array prog)) - 1] s
            = fold ?fa (array prog) s" for s
    by (rule fold_index)
  have ip: "fold (\<lambda>i. ?fp (ns ! nat i)) [0..int (length ns) - 1] s = fold ?fp ns s" for ns s
    by (rule fold_index)
  have ii: "fold (\<lambda>i. ?fi (ns ! nat i)) [0..int (length ns) - 1] s = fold ?fi ns s" for ns s
    by (rule fold_index)
  show ?thesis
    unfolding opencl_print_kernel_arguments_def ordered_arguments_def Let_def n_array_def
      isl_space_dim_def isl_space_get_dim_name_def isl_union_set_get_space_def
      isl_options_get_ast_iterator_type_def
    apply (simp only: isl_dim_type.case isl_space.simps)
    apply (simp only: ia ip ii la lp li split_conv)
    apply (simp add: comma_from_append comma_from_True [symmetric] comp_def)
    done
qed

text \<open>The loops over the arrays of the program, which skip some of the arrays.\<close>

lemma filter_loop:
  assumes "\<And>x p. P x \<Longrightarrow> f x p = p @ h x" and "\<And>x p. \<not> P x \<Longrightarrow> f x p = p"
  shows "fold f xs p = p @ concat (map h (filter P xs))"
  using assms by (induction xs arbitrary: p) simp_all

lemma allocate_device_array_shape:
  "allocate_device_array p a copy = p @ allocation a copy"
  by (simp add: allocate_device_array_def allocation_def allocation_size_def host_pointer_def
      Let_def printer_defs)

lemma copy_array_from_device_shape: "copy_array_from_device p a = p @ read_back a"
  by (simp add: copy_array_from_device_def read_back_def Let_def printer_defs)

lemma release_device_array_shape: "release_device_array p a = p @ release a"
  by (simp add: release_device_array_def release_def Let_def printer_defs)

lemma print_guarded_shape:
  "ppcg_print_guarded p (gpu_array_positive_size_guard a) (prog_context prog)
     copy_array_from_device a = p @ copy_back prog a"
  using copy_array_from_device_shape [of p a] copy_array_from_device_shape [of "[]" a]
  by (simp add: ppcg_print_guarded_def copy_back_def is_array_positive_size_guard_trivial_def)

lemma declare_device_arrays_shape:
  "opencl_declare_device_arrays p prog =
   p @ concat (map device_declaration (filter has_device_buffer (array prog))) @
   [Start_line, End_line]"
proof -
  let ?f = "\<lambda>a p. if gpu_array_is_read_only_scalar a then p
                  else isl_printer_end_line
                         (isl_printer_print_str
                            (isl_printer_print_str
                               (isl_printer_print_str (isl_printer_start_line p) ''cl_mem dev_'')
                               (name a)) '';'')"
  have l: "fold ?f xs q = q @ concat (map device_declaration (filter has_device_buffer xs))"
    for xs q
    by (rule filter_loop) (simp_all add: has_device_buffer_def device_declaration_def printer_defs)
  have i: "fold (\<lambda>i. ?f (array prog ! nat i)) [0..int (length (array prog)) - 1] s
           = fold ?f (array prog) s" for s
    by (rule fold_index)
  show ?thesis
    unfolding opencl_declare_device_arrays_def Let_def n_array_def
    apply (simp only: i l)
    apply (simp add: printer_defs)
    done
qed

lemma allocate_device_arrays_shape:
  "opencl_allocate_device_arrays p prog =
   p @ concat (map (\<lambda>a. allocation a (copied_in prog a))
                 (filter has_device_buffer (array prog))) @
   [Start_line, End_line]"
proof -
  let ?f = "\<lambda>a p. if gpu_array_is_read_only_scalar a then p
                  else allocate_device_array p a
                         (\<not> isl_set_plain_is_empty
                              (isl_union_set_extract_set (copy_in prog) (space a)))"
  have l: "fold ?f xs q
           = q @ concat (map (\<lambda>a. allocation a (copied_in prog a)) (filter has_device_buffer xs))"
    for xs q
    by (rule filter_loop)
       (simp_all add: has_device_buffer_def copied_in_def allocate_device_array_shape)
  have i: "fold (\<lambda>i. ?f (array prog ! nat i)) [0..int (length (array prog)) - 1] s
           = fold ?f (array prog) s" for s
    by (rule fold_index)
  show ?thesis
    unfolding opencl_allocate_device_arrays_def Let_def n_array_def
    apply (simp only: i l)
    apply (simp add: printer_defs)
    done
qed

lemma copy_arrays_from_device_shape:
  "opencl_copy_arrays_from_device p prog =
   p @ concat (map (copy_back prog) (filter (copied_out prog) (array prog))) @
   [Start_line, End_line]"
proof -
  let ?f = "\<lambda>a p. if isl_set_plain_is_empty (isl_union_set_extract_set (copy_out prog) (space a))
                  then p
                  else ppcg_print_guarded p (gpu_array_positive_size_guard a) (prog_context prog)
                         copy_array_from_device a"
  have l: "fold ?f xs q = q @ concat (map (copy_back prog) (filter (copied_out prog) xs))"
    for xs q
    by (rule filter_loop) (simp_all add: copied_out_def print_guarded_shape)
  have i: "fold (\<lambda>i. ?f (array prog ! nat i)) [0..int (length (array prog)) - 1] s
           = fold ?f (array prog) s" for s
    by (rule fold_index)
  show ?thesis
    unfolding opencl_copy_arrays_from_device_def Let_def n_array_def
    apply (simp only: i l)
    apply (simp add: printer_defs)
    done
qed

lemma release_device_arrays_shape:
  "opencl_release_device_arrays p prog =
   p @ concat (map release (filter has_device_buffer (array prog)))"
proof -
  let ?f = "\<lambda>a p. if gpu_array_is_read_only_scalar a then p else release_device_array p a"
  have l: "fold ?f xs q = q @ concat (map release (filter has_device_buffer xs))" for xs q
    by (rule filter_loop) (simp_all add: has_device_buffer_def release_device_array_shape)
  have i: "fold (\<lambda>i. ?f (array prog ! nat i)) [0..int (length (array prog)) - 1] s
           = fold ?f (array prog) s" for s
    by (rule fold_index)
  show ?thesis
    unfolding opencl_release_device_arrays_def Let_def n_array_def
    by (simp only: i l)
qed

text \<open>The host code of a kernel launch, in full.\<close>

lemma host_user_shape:
  \<open>fst (opencl_print_host_user p kern prog kc) =
   p @ [Start_line, Print_str ''{'', End_line, Indent 2,
        Start_line, Print_str ''size_t global_work_size['', Print_int (max (n_block kern) 1),
        Print_str ''] = {''] @
   comma_separated (total_work_items (block_dim kern) (grid_size kern)) @
   [Print_str ''};'', End_line,
    Start_line, Print_str ''size_t block_size['', Print_int (max (n_block kern) 1),
    Print_str ''] = {''] @
   comma_separated (block_sizes (block_dim kern)) @
   [Print_str ''};'', End_line,
    Start_line, Print_str ''cl_kernel kernel'', Print_int (kernel_id kern),
    Print_str '' = clCreateKernel(program, "kernel'', Print_int (kernel_id kern),
    Print_str ''", &err);'', End_line,
    Start_line, Print_str ''openclCheckReturn(err);'', End_line] @
   bindings (kernel_id kern) 0 (ordered_arguments prog kern) @
   [Start_line, Print_str ''openclCheckReturn(clEnqueueNDRangeKernel(queue, kernel'',
    Print_int (kernel_id kern), Print_str '', '', Print_int (max (n_block kern) 1),
    Print_str '', NULL, global_work_size, block_size, 0, NULL, NULL));'', End_line,
    Start_line, Print_str ''openclCheckReturn(clReleaseKernel(kernel'',
    Print_int (kernel_id kern), Print_str ''));'', End_line,
    Start_line, Print_str ''clFinish(queue);'', End_line, Indent (- 2),
    Start_line, Print_str ''}'', End_line, Start_line, End_line]\<close>
proof -
  have m: "(if 0 < n_block kern then n_block kern else 1) = max (n_block kern) 1"
    by (cases "block_dim kern") (simp_all add: n_block_def)
  show ?thesis
    unfolding opencl_print_host_user_def Let_def m
    by (simp add: printer_defs as_list_shape block_sizes_shape set_kernel_arguments_shape)
qed

lemma bindings_nth:
  "bindings kid k as =
   concat (map (\<lambda>j. binding_statement kid (k + int j) (as ! j)) [0..<length as])"
proof (induction as arbitrary: k)
  case Nil
  show ?case by simp
next
  case (Cons a as)
  have "map (\<lambda>j. binding_statement kid (k + int j) ((a # as) ! j)) [0..<Suc (length as)]
        = binding_statement kid k a #
          map (\<lambda>j. binding_statement kid (k + 1 + int j) (as ! j)) [0..<length as]"
    by (simp add: map_upt_Suc add.assoc del: upt_Suc)
  then show ?case
    using Cons [of "k + 1"] by simp
qed

lemma upto_0_1: "[0..(1::int)] = [0, 1]"
  by (simp add: upto.simps)

lemma declaration_text: "argument_text True ty = declaration_argument ty"
  by (rule ext) (simp add: argument_text_def)

lemma call_text: "argument_text False ty = call_argument"
  by (rule ext) (simp add: argument_text_def)

lemma allocate_device_arrays_calls:
  "opencl_allocate_device_arrays p prog =
     p @ concat (map (\<lambda>a. allocate_device_array [] a (copied_in prog a))
                     (filter has_device_buffer (array prog))) @
     [Start_line, End_line]"
proof -
  have "(\<lambda>a. allocation a (copied_in prog a)) =
        (\<lambda>a. allocate_device_array [] a (copied_in prog a))"
    by (rule ext) (simp add: allocate_device_array_shape)
  then show ?thesis
    using allocate_device_arrays_shape [of p prog] by simp
qed

lemma copy_arrays_from_device_calls:
  "opencl_copy_arrays_from_device p prog =
     p @ concat (map (\<lambda>a. ppcg_print_guarded [] (gpu_array_positive_size_guard a)
                              (prog_context prog) copy_array_from_device a)
                     (filter (copied_out prog) (array prog))) @
     [Start_line, End_line]"
proof -
  have "copy_back prog = (\<lambda>a. ppcg_print_guarded [] (gpu_array_positive_size_guard a)
                              (prog_context prog) copy_array_from_device a)"
    by (rule ext) (simp add: print_guarded_shape)
  then show ?thesis
    using copy_arrays_from_device_shape [of p prog] by simp
qed

lemma release_device_arrays_calls:
  "opencl_release_device_arrays p prog =
     p @ concat (map (release_device_array []) (filter has_device_buffer (array prog)))"
proof -
  have "release = release_device_array []"
    by (rule ext) (simp add: release_device_array_shape)
  then show ?thesis
    using release_device_arrays_shape [of p prog] by simp
qed

subsection \<open>The order of the kernel arguments\<close>

text \<open>
  Claim C1.  The declaration of a kernel, a call of it and the statements that
  bind its arguments all run through one list of arguments, the same at every
  position: the accessed arrays in program order, then the parameters of the
  kernel's footprint, then the host loop iterators.  The declaration and the
  call print the arguments of that list one by one, separated by commas, and
  the binding statement for position k binds the k-th argument of the list to
  index k.
\<close>

theorem kernel_arguments_agree:
  "opencl_print_kernel_arguments p prog kern True =
     p @ comma_separated
           (map (declaration_argument (isl_options_get_ast_iterator_type (ctx prog)))
                (ordered_arguments prog kern))
   \<and> opencl_print_kernel_arguments p prog kern False =
     p @ comma_separated (map call_argument (ordered_arguments prog kern))
   \<and> opencl_set_kernel_arguments p prog kern =
     p @ concat (map (\<lambda>k. binding_statement (kernel_id kern) (int k)
                              (ordered_arguments prog kern ! k))
                     [0..<length (ordered_arguments prog kern)])"
  using print_kernel_arguments_shape [of p prog kern True]
    print_kernel_arguments_shape [of p prog kern False]
    set_kernel_arguments_shape [of p prog kern]
    bindings_nth [of "kernel_id kern" 0 "ordered_arguments prog kern"]
  by (simp add: isl_options_get_ast_iterator_type_def declaration_text call_text)

subsection \<open>Work sizes\<close>

text \<open>
  Claim C2.  With B block dimensions and G grid dimensions, the list of the
  total numbers of work items is the single literal 1 if G <= 0 or B <= 0, and
  otherwise has one entry for each i of 0 .. max(B,G)-1: the grid bound in
  parentheses times b[i] if i < min(B,G), b[i] alone if i >= G, and g[i] alone
  if i >= B.
\<close>

theorem total_work_items_rule:
  "opencl_print_total_number_of_work_items_as_list p kern =
     (if isl_multi_pw_aff_dim (grid_size kern) isl_dim_set \<le> 0 \<or> n_block kern \<le> 0
      then p @ [Print_str ''1'']
      else p @ comma_separated
                 (map (opencl_print_total_number_of_work_items_for_dim [] kern)
                      [0..max (n_block kern)
                              (isl_multi_pw_aff_dim (grid_size kern) isl_dim_set) - 1]))
   \<and> (0 \<le> i \<and>
        i < min (n_block kern) (isl_multi_pw_aff_dim (grid_size kern) isl_dim_set) \<longrightarrow>
        opencl_print_total_number_of_work_items_for_dim p kern i =
          p @ [Print_str ''('', Print_pw_aff (grid_size kern ! nat i), Print_str '') * '',
               Print_int (block_dim kern ! nat i)])
   \<and> (0 \<le> i \<and>
        i < max (n_block kern) (isl_multi_pw_aff_dim (grid_size kern) isl_dim_set) \<and>
        i \<ge> isl_multi_pw_aff_dim (grid_size kern) isl_dim_set \<longrightarrow>
        opencl_print_total_number_of_work_items_for_dim p kern i =
          p @ [Print_int (block_dim kern ! nat i)])
   \<and> (0 \<le> i \<and>
        i < max (n_block kern) (isl_multi_pw_aff_dim (grid_size kern) isl_dim_set) \<and>
        i \<ge> n_block kern \<longrightarrow>
        opencl_print_total_number_of_work_items_for_dim p kern i =
          p @ [Print_pw_aff (grid_size kern ! nat i)])"
proof -
  let ?B = "n_block kern"
  let ?G = "isl_multi_pw_aff_dim (grid_size kern) isl_dim_set"
  have dim: "opencl_print_total_number_of_work_items_for_dim q kern j =
     q @ (if j < min ?B ?G then
            [Print_str ''('', Print_pw_aff (grid_size kern ! nat j), Print_str '') * '',
             Print_int (block_dim kern ! nat j)]
          else if j \<ge> ?G then [Print_int (block_dim kern ! nat j)]
          else [Print_pw_aff (grid_size kern ! nat j)])" for q j
    by (simp add: opencl_print_total_number_of_work_items_for_dim_def Let_def printer_defs
        isl_multi_pw_aff_get_pw_aff_def min.commute)
  have dimf: "opencl_print_total_number_of_work_items_for_dim [] kern =
     (\<lambda>j. if j < min ?B ?G then
            [Print_str ''('', Print_pw_aff (grid_size kern ! nat j), Print_str '') * '',
             Print_int (block_dim kern ! nat j)]
          else if j \<ge> ?G then [Print_int (block_dim kern ! nat j)]
          else [Print_pw_aff (grid_size kern ! nat j)])"
    by (rule ext) (simp add: dim)
  have whole: "opencl_print_total_number_of_work_items_as_list p kern =
     (if ?G \<le> 0 \<or> ?B \<le> 0 then p @ [Print_str ''1'']
      else p @ comma_separated
                 (map (opencl_print_total_number_of_work_items_for_dim [] kern)
                      [0..max ?B ?G - 1]))"
    unfolding as_list_shape total_work_items_def Let_def dimf n_block_def
      isl_multi_pw_aff_dim_def
    by (simp add: max.commute min.commute)
  have one: "0 \<le> i \<and> i < min ?B ?G \<longrightarrow>
        opencl_print_total_number_of_work_items_for_dim p kern i =
          p @ [Print_str ''('', Print_pw_aff (grid_size kern ! nat i), Print_str '') * '',
               Print_int (block_dim kern ! nat i)]"
    by (simp add: dim)
  have two: "0 \<le> i \<and> i < max ?B ?G \<and> i \<ge> ?G \<longrightarrow>
        opencl_print_total_number_of_work_items_for_dim p kern i =
          p @ [Print_int (block_dim kern ! nat i)]"
    by (simp add: dim)
  have three: "0 \<le> i \<and> i < max ?B ?G \<and> i \<ge> ?B \<longrightarrow>
        opencl_print_total_number_of_work_items_for_dim p kern i =
          p @ [Print_pw_aff (grid_size kern ! nat i)]"
    by (auto simp add: dim)
  from whole one two three show ?thesis by blast
qed

text \<open>
  Claim C2, at the kernel with block sizes [32] and grid sizes [10, 5]
  (dimension 0 is a product, dimension 1 the grid size alone) and at a kernel
  with block sizes [8, 4] and grid sizes [10] (dimension 1 is the block size
  alone).
\<close>

theorem total_work_items_rule_witness:
  "(0::int) \<le> 0 \<and> (0::int) \<le> 1
   \<and> (0::int) < min (n_block kern_ex) (isl_multi_pw_aff_dim (grid_size kern_ex) isl_dim_set)
   \<and> opencl_print_total_number_of_work_items_for_dim [] kern_ex 0 =
       [Print_str ''('', Print_pw_aff (Pw_aff ''10''), Print_str '') * '', Print_int 32]
   \<and> (1::int) < max (n_block kern_ex) (isl_multi_pw_aff_dim (grid_size kern_ex) isl_dim_set)
   \<and> (1::int) \<ge> n_block kern_ex
   \<and> opencl_print_total_number_of_work_items_for_dim [] kern_ex 1 =
       [Print_pw_aff (Pw_aff ''5'')]
   \<and> (1::int) < max (n_block (kern_sizes [8, 4] [Pw_aff ''10'']))
                    (isl_multi_pw_aff_dim (grid_size (kern_sizes [8, 4] [Pw_aff ''10''])) isl_dim_set)
   \<and> (1::int) \<ge> isl_multi_pw_aff_dim (grid_size (kern_sizes [8, 4] [Pw_aff ''10''])) isl_dim_set
   \<and> opencl_print_total_number_of_work_items_for_dim [] (kern_sizes [8, 4] [Pw_aff ''10'']) 1 =
       [Print_int 4]"
  using total_work_items_rule [of "[]" kern_ex 0] total_work_items_rule [of "[]" kern_ex 1]
    total_work_items_rule [of "[]" "kern_sizes [8, 4] [Pw_aff ''10'']" 1]
  by (simp add: kern_ex_def kern_sizes_def n_block_def isl_multi_pw_aff_dim_def)

text \<open>
  Claim C3 says that a kernel without block sizes and with the grid sizes [10]
  gets the list [10].  It gets the single literal 1.
\<close>

theorem no_block_grid_ten_counterexample:
  "opencl_print_total_number_of_work_items_as_list [] (kern_sizes [] [Pw_aff ''10''])
     = [Print_str ''1'']
   \<and> opencl_print_total_number_of_work_items_as_list [] (kern_sizes [] [Pw_aff ''10''])
     \<noteq> [Print_pw_aff (Pw_aff ''10'')]"
  by (simp add: opencl_print_total_number_of_work_items_as_list_def kern_sizes_def n_block_def
      isl_multi_pw_aff_dim_def isl_printer_print_str_def)

text \<open>
  Claim C3, amended.  For a kernel without block sizes, whatever its grid
  sizes, the list of the total numbers of work items is the single literal 1,
  and the host code declares \<open>global_work_size\<close> and \<open>block_size\<close> with
  length 1, each initialised with the single literal 1.
\<close>

theorem no_block_work_items:
  "block_dim kern = [] \<Longrightarrow>
   opencl_print_total_number_of_work_items_as_list p kern = p @ [Print_str ''1'']
   \<and> take 18 (drop (length p) (fst (opencl_print_host_user p kern prog kernel_c'))) =
       [Start_line, Print_str ''{'', End_line, Indent 2,
        Start_line, Print_str ''size_t global_work_size['', Print_int 1, Print_str ''] = {'',
        Print_str ''1'', Print_str ''};'', End_line,
        Start_line, Print_str ''size_t block_size['', Print_int 1, Print_str ''] = {'',
        Print_str ''1'', Print_str ''};'', End_line]"
  by (simp add: host_user_shape as_list_shape total_work_items_def block_sizes_def n_block_def)

text \<open>Claim C3, amended, at the kernel without block sizes and with the grid sizes [10].\<close>

theorem no_block_work_items_witness:
  "block_dim (kern_sizes [] [Pw_aff ''10'']) = []
   \<and> opencl_print_total_number_of_work_items_as_list [] (kern_sizes [] [Pw_aff ''10''])
       = [Print_str ''1'']
   \<and> take 18 (fst (opencl_print_host_user [] (kern_sizes [] [Pw_aff ''10'']) prog_empty [])) =
       [Start_line, Print_str ''{'', End_line, Indent 2,
        Start_line, Print_str ''size_t global_work_size['', Print_int 1, Print_str ''] = {'',
        Print_str ''1'', Print_str ''};'', End_line,
        Start_line, Print_str ''size_t block_size['', Print_int 1, Print_str ''] = {'',
        Print_str ''1'', Print_str ''};'', End_line]"
proof -
  have h: "block_dim (kern_sizes [] [Pw_aff ''10'']) = []"
    by (simp add: kern_sizes_def)
  show ?thesis
    using h no_block_work_items [OF h, of "[]" prog_empty "[]"] by simp
qed

text \<open>
  The number of entries of the two lists that initialise \<open>block_size\<close> and
  \<open>global_work_size\<close>: the first always has max(B,1) entries, the length
  both arrays are declared with; the second has max(B,G) entries when both B
  and G are positive, and one entry otherwise.
\<close>

lemma length_block_sizes: "int (length (block_sizes b)) = max (int (length b)) 1"
  by (cases b) (simp_all add: block_sizes_def)

lemma length_total_work_items:
  "int (length (total_work_items b g)) =
     (if int (length g) \<le> 0 \<or> int (length b) \<le> 0 then 1
      else max (int (length b)) (int (length g)))"
  by (auto simp add: total_work_items_def Let_def max_def)

text \<open>
  Claim C4 says that \<open>global_work_size\<close> has as many initialisers as its
  declared length.  For a kernel with block sizes [8] and grid sizes [10, 5]
  the array is declared with length 1 and initialised with the two entries of
  the list of total work items.
\<close>

theorem global_work_size_excess_initializers:
  "take 16 (fst (opencl_print_host_user [] (kern_sizes [8] [Pw_aff ''10'', Pw_aff ''5''])
                   prog_empty [])) =
     [Start_line, Print_str ''{'', End_line, Indent 2,
      Start_line, Print_str ''size_t global_work_size['', Print_int 1, Print_str ''] = {'',
      Print_str ''('', Print_pw_aff (Pw_aff ''10''), Print_str '') * '', Print_int 8,
      Print_str '', '', Print_pw_aff (Pw_aff ''5''), Print_str ''};'', End_line]
   \<and> length (total_work_items [8] [Pw_aff ''10'', Pw_aff ''5'']) = 2"
  by (simp add: host_user_shape total_work_items_def kern_sizes_def n_block_def upto_0_1)

subsection \<open>Output files\<close>

text \<open>
  When \<open>opencl_open_files\<close> returns, its result is -1 exactly if the host file
  or the kernel source is not open, and the result 0 comes with an open kernel
  header: with the other two files open and the header not, the function does
  not return.
\<close>

lemma open_files_result:
  "opencl_open_files w info tr = Some (r, info', tr') \<Longrightarrow>
   r = (if host_c info' = None \<or> kernel_c info' = None then - 1 else 0)
   \<and> (r = 0 \<longrightarrow> kernel_h info' \<noteq> None)"
  unfolding opencl_open_files_def open_or_croak_def fopen_def fprintf_def Let_def
  by (auto split: option.splits if_splits prod.splits simp add: bind_eq_Some_conv)

text \<open>
  Claim C5 says that opening the files fails whenever one of the three files
  cannot be opened.  When only the kernel header cannot be opened, the test
  after the three calls does not see it (it looks at \<open>host_c\<close> twice and never
  at \<open>kernel_h\<close>): \<open>opencl_open_files\<close> does not return -1 but goes on to print
  to the null \<open>kernel_h\<close>.  When the kernel source cannot be opened, the
  failure is reported as the claim says: the result is -1, \<open>generate_gpu\<close> is
  not called and the two open files are closed.
\<close>

theorem kernel_header_failure_not_reported:
  \<open>opencl_open_files (world_without ''out_kernel.h'')
     \<lparr>info_input = ''in.c'', info_output = Some ''out.c'', kernel_c_name = [],
      host_c = None, kernel_c = None, kernel_h = None\<rparr> [] = None
   \<and> generate_opencl (world_without ''out_kernel.h'') ''in.c'' (Some ''out.c'') = None
   \<and> generate_opencl (world_without ''in_kernel.cl'') ''in.c'' None =
       Some (- 1, [Fopen ''in_host.c'', Fopen_failed ''in_kernel.cl'',
                   Stderr ''Failed to open "in_kernel.cl" for writing\<newline>'',
                   Fopen ''in_kernel.h'', Fclose ''in_kernel.h'', Fclose ''in_host.c''])\<close>
  by (simp add: generate_opencl_def opencl_open_files_def open_or_croak_def fopen_def
      fprintf_def fclose_def opencl_close_files_def generate_gpu_def world_without_def Let_def)

subsection \<open>Device arrays\<close>

text \<open>
  Claim C6.  Only the arrays with a non-empty part of the global write
  footprint are copied back, so an array without one gets no copy-back
  statement.  Every array with a device buffer is allocated with the copy flag
  set exactly if its part of the global read footprint is not empty; without
  the flag the allocation has no \<open>CL_MEM_COPY_HOST_PTR\<close> and the host pointer
  NULL, with the flag it has \<open>CL_MEM_COPY_HOST_PTR\<close> and the host array, or
  the address of the host variable for a scalar, as host pointer.  Emptiness is
  isl's plain test, as the code runs it.
\<close>

theorem copies_follow_footprints:
  "opencl_copy_arrays_from_device p prog =
     p @ concat (map (\<lambda>a. ppcg_print_guarded [] (gpu_array_positive_size_guard a)
                              (prog_context prog) copy_array_from_device a)
                     (filter (copied_out prog) (array prog))) @
     [Start_line, End_line]
   \<and> opencl_allocate_device_arrays p prog =
     p @ concat (map (\<lambda>a. allocate_device_array [] a (copied_in prog a))
                     (filter has_device_buffer (array prog))) @
     [Start_line, End_line]
   \<and> allocate_device_array [] a False =
     [Start_block, Start_line, Print_str ''dev_'', Print_str (name a),
      Print_str '' = clCreateBuffer(context, '', Print_str ''CL_MEM_READ_WRITE'',
      Print_str '', ''] @
     allocation_size a @
     [Print_str '', NULL'', Print_str '', &err);'', End_line,
      Start_line, Print_str ''openclCheckReturn(err);'', End_line, End_block]
   \<and> allocate_device_array [] a True =
     [Start_block, Start_line, Print_str ''dev_'', Print_str (name a),
      Print_str '' = clCreateBuffer(context, '', Print_str ''CL_MEM_READ_WRITE'',
      Print_str '' | CL_MEM_COPY_HOST_PTR, ''] @
     allocation_size a @
     [Print_str (if gpu_array_is_scalar a then '', &'' else '', ''), Print_str (name a),
      Print_str '', &err);'', End_line,
      Start_line, Print_str ''openclCheckReturn(err);'', End_line, End_block]"
  using copy_arrays_from_device_calls [of p prog] allocate_device_arrays_calls [of p prog]
  by (simp add: allocate_device_array_shape allocation_def host_pointer_def)

text \<open>
  Claim C7.  If the positive size guard of an array is trivial, its allocation
  prints the size of the array without a lower bound and its copy-back is
  printed unguarded.  If the guard is not trivial, the size of the allocation
  is \<open>max(sizeof(type), size)\<close> and the copy-back is wrapped inside the guard,
  under the context of the program.  Every copy-back goes through
  \<open>ppcg_print_guarded\<close> with the guard of the array and that context.
\<close>

theorem positive_size_guard_policy:
  "(is_array_positive_size_guard_trivial a \<longrightarrow>
      allocate_device_array p a copy =
        p @ [Start_block, Start_line, Print_str ''dev_'', Print_str (name a),
             Print_str '' = clCreateBuffer(context, '', Print_str ''CL_MEM_READ_WRITE'',
             Print_str (if copy then '' | CL_MEM_COPY_HOST_PTR, '' else '', ''),
             Print_size a] @
        host_pointer a copy @
        [Print_str '', &err);'', End_line,
         Start_line, Print_str ''openclCheckReturn(err);'', End_line, End_block]
      \<and> ppcg_print_guarded p (gpu_array_positive_size_guard a) (prog_context prog)
            copy_array_from_device a = copy_array_from_device p a)
   \<and> (\<not> is_array_positive_size_guard_trivial a \<longrightarrow>
      allocate_device_array p a copy =
        p @ [Start_block, Start_line, Print_str ''dev_'', Print_str (name a),
             Print_str '' = clCreateBuffer(context, '', Print_str ''CL_MEM_READ_WRITE'',
             Print_str (if copy then '' | CL_MEM_COPY_HOST_PTR, '' else '', ''),
             Print_str ''max(sizeof('', Print_str (type a), Print_str ''), '', Print_size a,
             Print_str '')''] @
        host_pointer a copy @
        [Print_str '', &err);'', End_line,
         Start_line, Print_str ''openclCheckReturn(err);'', End_line, End_block]
      \<and> ppcg_print_guarded p (gpu_array_positive_size_guard a) (prog_context prog)
            copy_array_from_device a =
          p @ [Guarded (gpu_array_positive_size_guard a) (prog_context prog)
                 (copy_array_from_device [] a)])
   \<and> opencl_copy_arrays_from_device p prog =
     p @ concat (map (\<lambda>a. ppcg_print_guarded [] (gpu_array_positive_size_guard a)
                              (prog_context prog) copy_array_from_device a)
                     (filter (copied_out prog) (array prog))) @
     [Start_line, End_line]"
  using copy_arrays_from_device_calls [of p prog]
  by (simp add: allocate_device_array_shape allocation_def allocation_size_def
      ppcg_print_guarded_def is_array_positive_size_guard_trivial_def)

text \<open>
  Claim C7, at the array \<open>C\<close> of constant size (trivial guard) and at the
  array \<open>A\<close> of size N (guard N >= 1).
\<close>

theorem positive_size_guard_policy_witness:
  "is_array_positive_size_guard_trivial array_C
   \<and> allocate_device_array [] array_C True =
       [Start_block, Start_line, Print_str ''dev_'', Print_str ''C'',
        Print_str '' = clCreateBuffer(context, '', Print_str ''CL_MEM_READ_WRITE'',
        Print_str '' | CL_MEM_COPY_HOST_PTR, '', Print_size array_C,
        Print_str '', '', Print_str ''C'', Print_str '', &err);'', End_line,
        Start_line, Print_str ''openclCheckReturn(err);'', End_line, End_block]
   \<and> ppcg_print_guarded [] (gpu_array_positive_size_guard array_C) (prog_context prog_ex)
         copy_array_from_device array_C = copy_array_from_device [] array_C
   \<and> \<not> is_array_positive_size_guard_trivial array_A
   \<and> allocate_device_array [] array_A False =
       [Start_block, Start_line, Print_str ''dev_'', Print_str ''A'',
        Print_str '' = clCreateBuffer(context, '', Print_str ''CL_MEM_READ_WRITE'',
        Print_str '', '', Print_str ''max(sizeof('', Print_str ''float'', Print_str ''), '',
        Print_size array_A, Print_str '')'',
        Print_str '', NULL'', Print_str '', &err);'', End_line,
        Start_line, Print_str ''openclCheckReturn(err);'', End_line, End_block]
   \<and> ppcg_print_guarded [] (gpu_array_positive_size_guard array_A) (prog_context prog_ex)
         copy_array_from_device array_A =
       [Guarded (Constrained ''N >= 1'') (Constrained ''N >= 0'')
          (copy_array_from_device [] array_A)]"
proof -
  have t: "is_array_positive_size_guard_trivial array_C"
    by (simp add: is_array_positive_size_guard_trivial_def gpu_array_positive_size_guard_def
        isl_set_plain_is_universe_def array_C_def)
  have n: "\<not> is_array_positive_size_guard_trivial array_A"
    by (simp add: is_array_positive_size_guard_trivial_def gpu_array_positive_size_guard_def
        isl_set_plain_is_universe_def array_A_def)
  have g: "gpu_array_positive_size_guard array_A = Constrained ''N >= 1''"
    "prog_context prog_ex = Constrained ''N >= 0''"
    "name array_A = ''A''" "type array_A = ''float''" "name array_C = ''C''"
    "\<not> gpu_array_is_scalar array_C"
    by (simp_all add: gpu_array_positive_size_guard_def array_A_def array_C_def prog_ex_def
        gpu_array_is_scalar_def)
  show ?thesis
    using t n positive_size_guard_policy [of array_C "[]" True prog_ex]
      positive_size_guard_policy [of array_A "[]" False prog_ex]
    by (simp add: g host_pointer_def)
qed

text \<open>
  Claim C8.  The declarations, the allocations and the releases of device
  buffers are printed for the arrays with a device buffer only, of which a
  read-only scalar is none; and the statement that binds a read-only scalar to
  a kernel argument passes the size and the address of the host variable, and
  names no device buffer.
\<close>

theorem read_only_scalars_have_no_buffer:
  "opencl_declare_device_arrays p prog =
     p @ concat (map device_declaration (filter has_device_buffer (array prog))) @
     [Start_line, End_line]
   \<and> opencl_allocate_device_arrays p prog =
     p @ concat (map (\<lambda>a. allocate_device_array [] a (copied_in prog a))
                     (filter has_device_buffer (array prog))) @
     [Start_line, End_line]
   \<and> opencl_release_device_arrays p prog =
     p @ concat (map (release_device_array []) (filter has_device_buffer (array prog)))
   \<and> opencl_set_kernel_arguments p prog kern =
     p @ bindings (kernel_id kern) 0 (ordered_arguments prog kern)
   \<and> (gpu_array_is_read_only_scalar a \<longrightarrow>
        a \<notin> set (filter has_device_buffer (array prog))
        \<and> binding_statement kid k (Array_arg a) =
            [Start_line, Print_str ''openclCheckReturn(clSetKernelArg(kernel'', Print_int kid,
             Print_str '', '', Print_int k, Print_str '', sizeof('', Print_str (name a),
             Print_str ''), &'', Print_str (name a), Print_str ''));'', End_line])"
  using allocate_device_arrays_calls [of p prog] release_device_arrays_calls [of p prog]
  by (simp add: declare_device_arrays_shape set_kernel_arguments_shape has_device_buffer_def
      binding_statement_def)

text \<open>Claim C8, at the read-only scalar \<open>B\<close> of the example program.\<close>

theorem read_only_scalars_have_no_buffer_witness:
  "gpu_array_is_read_only_scalar array_B
   \<and> array_B \<notin> set (filter has_device_buffer (array prog_ex))
   \<and> binding_statement 0 1 (Array_arg array_B) =
       [Start_line, Print_str ''openclCheckReturn(clSetKernelArg(kernel'', Print_int 0,
        Print_str '', '', Print_int 1, Print_str '', sizeof('', Print_str ''B'',
        Print_str ''), &'', Print_str ''B'', Print_str ''));'', End_line]"
proof -
  have h: "gpu_array_is_read_only_scalar array_B"
    by (simp add: gpu_array_is_read_only_scalar_def array_B_def)
  have n: "name array_B = ''B''"
    by (simp add: array_B_def)
  show ?thesis
    using h read_only_scalars_have_no_buffer [of "[]" prog_ex kern_ex array_B 0 1]
    by (simp add: n)
qed

text \<open>
  Claim C10.  Every allocation of a device buffer names the flag
  \<open>CL_MEM_READ_WRITE\<close>, whatever the array and whether or not it is copied:
  the copy flag changes the suffix \<open>CL_MEM_COPY_HOST_PTR\<close> and the host
  pointer only, and the global write footprint plays no part in an allocation.
\<close>

theorem buffers_are_read_write:
  "allocate_device_array p a copy =
     p @ [Start_block, Start_line, Print_str ''dev_'', Print_str (name a),
          Print_str '' = clCreateBuffer(context, '', Print_str ''CL_MEM_READ_WRITE'',
          Print_str (if copy then '' | CL_MEM_COPY_HOST_PTR, '' else '', '')] @
     allocation_size a @ host_pointer a copy @
     [Print_str '', &err);'', End_line, Start_line, Print_str ''openclCheckReturn(err);'',
      End_line, End_block]
   \<and> opencl_allocate_device_arrays p prog =
     p @ concat (map (\<lambda>a. allocate_device_array [] a (copied_in prog a))
                     (filter has_device_buffer (array prog))) @
     [Start_line, End_line]
   \<and> take 6 (allocate_device_array [] a copy) =
     [Start_block, Start_line, Print_str ''dev_'', Print_str (name a),
      Print_str '' = clCreateBuffer(context, '', Print_str ''CL_MEM_READ_WRITE'']"
  using allocate_device_arrays_calls [of p prog]
  by (simp add: allocate_device_array_shape allocation_def)

subsection \<open>The types in a kernel declaration\<close>

text \<open>
  The annotations in the declaration of a kernel, in the order in which they
  are printed: the qualifier of global memory and the element type, once for
  each accessed array.
\<close>

lemma annotations_comma_from:
  "filter (\<lambda>x. x \<noteq> None)
     (map annotation (comma_from first (map (declaration_argument ty) args))) =
   concat (map (\<lambda>arg. case arg of Array_arg a \<Rightarrow> [Some (''__global'', type a)]
                                  | Param_arg n \<Rightarrow> []
                                  | Iterator_arg n \<Rightarrow> []) args)"
proof (induction args arbitrary: first)
  case Nil
  show ?case by simp
next
  case (Cons arg args)
  show ?case
    using Cons [of False] by (cases arg) simp_all
qed

lemma annotations_of_declaration:
  "filter (\<lambda>x. x \<noteq> None)
     (map annotation (opencl_print_kernel_arguments [] prog kern True)) =
   map (\<lambda>a. Some (''__global'', type a)) (filter (accessed kern) (array prog))"
proof -
  have a: "concat (map (\<lambda>a. [f a]) xs) = map f xs" for f :: "'a \<Rightarrow> 'b" and xs
    by (induction xs) simp_all
  show ?thesis
    using annotations_comma_from [of True "ast_iterator_type (ctx prog)" "ordered_arguments prog kern"]
    by (simp add: print_kernel_arguments_shape declaration_text comma_from_True
        ordered_arguments_def comp_def a)
qed

text \<open>
  Claim C9 says that a parameter is declared with the configured iterator
  type.  With the iterator type \<open>long\<close>, the parameter \<open>N\<close> is declared as
  \<open>int N\<close>.
\<close>

theorem parameter_declared_int_counterexample:
  "isl_options_get_ast_iterator_type (ctx prog_ex) = ''long''
   \<and> opencl_print_kernel_arguments [] prog_ex kern_param True
       = [Print_str ''int '', Print_str ''N'']
   \<and> opencl_print_kernel_arguments [] prog_ex kern_param True
       \<noteq> [Print_str ''long'', Print_str '' '', Print_str ''N'']"
  by (simp add: print_kernel_arguments_shape ordered_arguments_def argument_text_def
      isl_union_set_get_space_def isl_options_get_ast_iterator_type_def accessed_def
      isl_union_set_extract_set_def isl_set_plain_is_empty_def
      prog_ex_def kern_param_def array_A_def array_B_def array_C_def)

text \<open>
  Claim C9, amended.  In a kernel declaration every array argument is
  annotated with the qualifier of global memory and with its element type,
  every parameter is annotated with the type \<open>int\<close>, and every host loop
  iterator is annotated with the configured iterator type.
\<close>

theorem declaration_types:
  "opencl_print_kernel_arguments p prog kern True =
     p @ comma_separated
           (map (declaration_argument (isl_options_get_ast_iterator_type (ctx prog)))
                (ordered_arguments prog kern))
   \<and> declaration_argument ty (Array_arg a) = [Print_declaration_argument a ''__global'']
   \<and> declaration_argument ty (Param_arg n) = [Print_str ''int '', Print_str n]
   \<and> declaration_argument ty (Iterator_arg n) = [Print_str ty, Print_str '' '', Print_str n]
   \<and> map annotation (declaration_argument ty (Array_arg a)) = [Some (''__global'', type a)]
   \<and> filter (\<lambda>x. x \<noteq> None)
        (map annotation (opencl_print_kernel_arguments [] prog kern True)) =
      map (\<lambda>a. Some (''__global'', type a)) (filter (accessed kern) (array prog))"
  using print_kernel_arguments_shape [of p prog kern True]
    annotations_of_declaration [of prog kern]
  by (simp add: isl_options_get_ast_iterator_type_def declaration_text)

end
